theory Spec2Isabelle
  imports Main "HOL-Library.Sublist"
begin

section \<open>Python string primitives used by \<open>scripts/common.py\<close>\<close>

text \<open>
  Python strings are modelled as \<^typ>\<open>string\<close>. \<open>s.endswith(t)\<close> is
  \<^term>\<open>suffix t s\<close>, \<open>s.startswith(t)\<close> is \<^term>\<open>prefix t s\<close> and the
  substring test \<open>t in s\<close> is \<^term>\<open>sublist t s\<close> (contiguous occurrence), all from
  \<open>HOL-Library.Sublist\<close>.
\<close>

definition endswith :: "string \<Rightarrow> string \<Rightarrow> bool" where
  "endswith s t = suffix t s"

definition str_in :: "string \<Rightarrow> string \<Rightarrow> bool" where
  "str_in t s = sublist t s"

text \<open>
  \<open>s.replace(old, new)\<close>: every non-overlapping occurrence of \<open>old\<close>, found by a scan
  from the left, is replaced by \<open>new\<close>. For the empty \<open>old\<close> Python inserts \<open>new\<close>
  before every character and at the end.
\<close>

function str_replace :: "string \<Rightarrow> string \<Rightarrow> string \<Rightarrow> string" where
  "str_replace [] old new = (if old = [] then new else [])"
| "str_replace (c # cs) old new =
     (if old = [] then new @ c # str_replace cs old new
      else if prefix old (c # cs)
        then new @ str_replace (drop (length old) (c # cs)) old new
      else c # str_replace cs old new)"
  by pat_completeness auto
termination
  by (relation "measure (\<lambda>(s, old, new). length s)") auto

section \<open>Directory names of the project layout\<close>

definition SOUNDS_DIR_NAME :: string where "SOUNDS_DIR_NAME = ''sounds''"
definition COLLECTIONS_DIR_NAME :: string where "COLLECTIONS_DIR_NAME = ''collections''"
definition SOUNDBANKS_DIR_NAME :: string where "SOUNDBANKS_DIR_NAME = ''soundbanks''"
definition EVENTS_DIR_NAME :: string where "EVENTS_DIR_NAME = ''events''"
definition PIPELINES_DIR_NAME :: string where "PIPELINES_DIR_NAME = ''pipelines''"
definition ATTENUATORS_DIR_NAME :: string where "ATTENUATORS_DIR_NAME = ''attenuators''"
definition SWITCHES_DIR_NAME :: string where "SWITCHES_DIR_NAME = ''switches''"
definition SWITCH_CONTAINERS_DIR_NAME :: string where
  "SWITCH_CONTAINERS_DIR_NAME = ''switch_containers''"
definition RTPC_DIR_NAME :: string where "RTPC_DIR_NAME = ''rtpc''"
definition EFFECTS_DIR_NAME :: string where "EFFECTS_DIR_NAME = ''effects''"
definition ENVIRONMENTS_DIR_NAME :: string where "ENVIRONMENTS_DIR_NAME = ''environments''"

lemmas dir_names =
  SOUNDS_DIR_NAME_def COLLECTIONS_DIR_NAME_def SOUNDBANKS_DIR_NAME_def EVENTS_DIR_NAME_def
  PIPELINES_DIR_NAME_def ATTENUATORS_DIR_NAME_def SWITCHES_DIR_NAME_def
  SWITCH_CONTAINERS_DIR_NAME_def RTPC_DIR_NAME_def EFFECTS_DIR_NAME_def
  ENVIRONMENTS_DIR_NAME_def

section \<open>\<open>processed_json_path\<close>\<close>

text \<open>
  The conditional expression that \<open>processed_json_path\<close> passes as the replacement
  text of its first \<open>replace\<close> (lines 208 to 220), in the order of the source.
\<close>

definition output_extension :: "string \<Rightarrow> string" where
  "output_extension path =
     (if endswith path ''config.json'' then ''.amconfig''
      else if endswith path ''buses.json'' then ''.ambus''
      else if str_in SOUNDBANKS_DIR_NAME path then ''.ambank''
      else if str_in COLLECTIONS_DIR_NAME path then ''.amcollection''
      else if str_in EVENTS_DIR_NAME path then ''.amevent''
      else if str_in PIPELINES_DIR_NAME path then ''.ampipeline''
      else if str_in ATTENUATORS_DIR_NAME path then ''.amattenuation''
      else if str_in SWITCHES_DIR_NAME path then ''.amswitch''
      else if str_in SWITCH_CONTAINERS_DIR_NAME path then ''.amswitchcontainer''
      else if str_in RTPC_DIR_NAME path then ''.amrtpc''
      else if str_in SOUNDS_DIR_NAME path then ''.amsound''
      else if str_in ENVIRONMENTS_DIR_NAME path then ''.amenv''
      else ''.ambin'')"

definition processed_json_path :: "string \<Rightarrow> string \<Rightarrow> string \<Rightarrow> string" where
  "processed_json_path path input_path output_path =
     str_replace (str_replace path ''.json'' (output_extension path)) input_path output_path"


text \<open>
  The naming rules as an ordered table of (predicate, extension) pairs with a
  first-match lookup, in the order in which \<open>processed_json_path\<close> tests them; the
  fallback of the lookup is the generic extension.
\<close>

definition extension_rules :: "((string \<Rightarrow> bool) \<times> string) list" where
  "extension_rules =
     [(\<lambda>p. endswith p ''config.json'', ''.amconfig''),
      (\<lambda>p. endswith p ''buses.json'', ''.ambus''),
      (str_in ''soundbanks'', ''.ambank''),
      (str_in ''collections'', ''.amcollection''),
      (str_in ''events'', ''.amevent''),
      (str_in ''pipelines'', ''.ampipeline''),
      (str_in ''attenuators'', ''.amattenuation''),
      (str_in ''switches'', ''.amswitch''),
      (str_in ''switch_containers'', ''.amswitchcontainer''),
      (str_in ''rtpc'', ''.amrtpc''),
      (str_in ''sounds'', ''.amsound''),
      (str_in ''environments'', ''.amenv'')]"

fun first_match :: "((string \<Rightarrow> bool) \<times> string) list \<Rightarrow> string \<Rightarrow> string" where
  "first_match [] p = ''.ambin''"
| "first_match ((f, e) # rs) p = (if f p then e else first_match rs p)"

section \<open>Paths\<close>

text \<open>\<open>os.path.join(a, *p)\<close> and \<open>os.path.dirname(p)\<close> of \<open>posixpath\<close>.\<close>

fun path_join :: "string \<Rightarrow> string list \<Rightarrow> string" where
  "path_join a [] = a"
| "path_join a (b # p) =
     path_join (if prefix ''/'' b then b
                else if a = [] \<or> endswith a ''/'' then a @ b
                else a @ ''/'' @ b) p"

definition dirname :: "string \<Rightarrow> string" where
  "dirname p =
     (let head = rev (dropWhile (\<lambda>c. c \<noteq> CHR ''/'') (rev p))
      in if head \<noteq> [] \<and> head \<noteq> replicate (length head) (CHR ''/'')
         then rev (dropWhile (\<lambda>c. c = CHR ''/'') (rev head))
         else head)"

text \<open>\<open>os.path.basename(p)\<close> of \<open>posixpath\<close>: what follows the last separator.\<close>

definition basename :: "string \<Rightarrow> string" where
  "basename p = rev (takeWhile (\<lambda>c. c \<noteq> CHR ''/'') (rev p))"

section \<open>File system, errors and the external collaborators\<close>

text \<open>
  A path names a regular file or a directory, each with its modification time, or
  nothing. The exceptions of the script are values: \<open>BuildError argv error_code message\<close>
  and the operating-system error raised for a path that does not exist.
\<close>

datatype node = File nat | Dir nat

fun mtime :: "node \<Rightarrow> nat" where
  "mtime (File t) = t"
| "mtime (Dir t) = t"

type_synonym filesystem = "string \<rightharpoonup> node"

datatype error = BuildError "string list" int string | OSError string

definition isfile :: "filesystem \<Rightarrow> string \<Rightarrow> bool" where
  "isfile fs p = (case fs p of Some (File t) \<Rightarrow> True | _ \<Rightarrow> False)"

definition path_exists :: "filesystem \<Rightarrow> string \<Rightarrow> bool" where
  "path_exists fs p = (fs p \<noteq> None)"

definition getmtime :: "filesystem \<Rightarrow> string \<Rightarrow> error + nat" where
  "getmtime fs p = (case fs p of None \<Rightarrow> Inl (OSError p) | Some n \<Rightarrow> Inr (mtime n))"

definition os_remove :: "filesystem \<Rightarrow> string \<Rightarrow> error + filesystem" where
  "os_remove fs p = (if isfile fs p then Inr (fs(p := None)) else Inl (OSError p))"

text \<open>
  What the script cannot decide by itself is a parameter: the directory enumeration
  \<open>glob.glob(pattern, recursive)\<close> (its order is the operating system's),
  \<open>os.makedirs\<close>, which leaves a file system behind and may raise an operating-system
  error (\<open>Some\<close> of its message), and the process started by \<open>subprocess.Popen\<close>, which
  either cannot be launched (with the system's message) or exits with a return code,
  leaving a file system behind.
\<close>

datatype proc = LaunchFailure string | Exited int filesystem

record os_env =
  glob :: "filesystem \<Rightarrow> string \<Rightarrow> bool \<Rightarrow> string list"
  makedirs :: "filesystem \<Rightarrow> string \<Rightarrow> string option \<times> filesystem"
  popen :: "filesystem \<Rightarrow> string list \<Rightarrow> proc"

text \<open>The state of a run: the file system and the command lines handed to \<open>Popen\<close> so far.\<close>

record world =
  files :: filesystem
  invoked :: "string list list"

record FlatbuffersConversionData =
  schema :: string
  input_files :: "string list"

record CommandOptions =
  project_path :: string
  build_path :: string
  flatc_path :: string
  schema_path :: string

section \<open>\<open>run_subprocess\<close>, \<open>needs_rebuild\<close>, \<open>find_in_paths\<close>\<close>

definition run_subprocess :: "os_env \<Rightarrow> string list \<Rightarrow> world \<Rightarrow> (error + unit) \<times> world" where
  "run_subprocess env argv w =
     (case popen env (files w) argv of
        LaunchFailure msg \<Rightarrow>
          (Inl (BuildError argv 1 msg), w\<lparr>invoked := invoked w @ [argv]\<rparr>)
      | Exited returncode fs' \<Rightarrow>
          (if returncode \<noteq> 0 then Inl (BuildError argv returncode [])
           else Inr (),
           \<lparr>files = fs', invoked = invoked w @ [argv]\<rparr>))"

definition convert_json_to_flatbuffers_binary ::
  "os_env \<Rightarrow> string \<Rightarrow> string \<Rightarrow> string \<Rightarrow> string \<Rightarrow> string \<Rightarrow> world \<Rightarrow> (error + unit) \<times> world"
where
  "convert_json_to_flatbuffers_binary env flatc json schm out_dir schm_path w =
     run_subprocess env [flatc, ''-o'', out_dir, ''-I'', schm_path, ''-b'', schm, json] w"

definition needs_rebuild :: "filesystem \<Rightarrow> string \<Rightarrow> string \<Rightarrow> error + bool" where
  "needs_rebuild fs source target =
     (if \<not> isfile fs target then Inr True
      else case getmtime fs source of
             Inl e \<Rightarrow> Inl e
           | Inr ms \<Rightarrow> (case getmtime fs target of
                          Inl e \<Rightarrow> Inl e
                        | Inr mt \<Rightarrow> Inr (ms > mt)))"

fun find_in_paths :: "filesystem \<Rightarrow> string \<Rightarrow> string list \<Rightarrow> string" where
  "find_in_paths fs name [] = name"
| "find_in_paths fs name (path # paths) =
     (let full_path = path_join path [name]
      in if isfile fs full_path then full_path else find_in_paths fs name paths)"

section \<open>\<open>get_conversion_data\<close>\<close>

definition get_conversion_data ::
  "os_env \<Rightarrow> filesystem \<Rightarrow> string \<Rightarrow> string list \<Rightarrow> FlatbuffersConversionData list"
where
  "get_conversion_data env fs proj schema_paths =
     [\<lparr>schema = find_in_paths fs ''engine_config_definition.bfbs'' schema_paths,
       input_files = glob env fs (path_join proj [''*.config.json'']) False\<rparr>,
      \<lparr>schema = find_in_paths fs ''buses_definition.bfbs'' schema_paths,
       input_files = glob env fs (path_join proj [''*.buses.json'']) False\<rparr>,
      \<lparr>schema = find_in_paths fs ''sound_bank_definition.bfbs'' schema_paths,
       input_files = glob env fs (path_join proj [SOUNDBANKS_DIR_NAME, ''**/*.json'']) True\<rparr>,
      \<lparr>schema = find_in_paths fs ''collection_definition.bfbs'' schema_paths,
       input_files = glob env fs (path_join proj [COLLECTIONS_DIR_NAME, ''**/*.json'']) True\<rparr>,
      \<lparr>schema = find_in_paths fs ''sound_definition.bfbs'' schema_paths,
       input_files = glob env fs (path_join proj [SOUNDS_DIR_NAME, ''**/*.json'']) True\<rparr>,
      \<lparr>schema = find_in_paths fs ''event_definition.bfbs'' schema_paths,
       input_files = glob env fs (path_join proj [EVENTS_DIR_NAME, ''**/*.json'']) True\<rparr>,
      \<lparr>schema = find_in_paths fs ''pipeline_definition.bfbs'' schema_paths,
       input_files = glob env fs (path_join proj [PIPELINES_DIR_NAME, ''**/*.json'']) True\<rparr>,
      \<lparr>schema = find_in_paths fs ''attenuation_definition.bfbs'' schema_paths,
       input_files = glob env fs (path_join proj [ATTENUATORS_DIR_NAME, ''**/*.json'']) True\<rparr>,
      \<lparr>schema = find_in_paths fs ''switch_definition.bfbs'' schema_paths,
       input_files = glob env fs (path_join proj [SWITCHES_DIR_NAME, ''**/*.json'']) True\<rparr>,
      \<lparr>schema = find_in_paths fs ''switch_container_definition.bfbs'' schema_paths,
       input_files =
         glob env fs (path_join proj [SWITCH_CONTAINERS_DIR_NAME, ''**/*.json'']) True\<rparr>,
      \<lparr>schema = find_in_paths fs ''rtpc_definition.bfbs'' schema_paths,
       input_files = glob env fs (path_join proj [RTPC_DIR_NAME, ''**/*.json'']) True\<rparr>,
      \<lparr>schema = find_in_paths fs ''effect_definition.bfbs'' schema_paths,
       input_files = glob env fs (path_join proj [EFFECTS_DIR_NAME, ''**/*.json'']) True\<rparr>]"

section \<open>\<open>generate_flatbuffers_binaries\<close>\<close>

text \<open>
  The body of the inner loop for one input file: \<open>build_file\<close> computes the target
  (line 263) and \<open>build_target\<close> is the rest of the body (lines 264 to 268). An
  exception of any step ends the run with the state reached so far; \<open>or\<close> evaluates
  the schema's check only when the source's check returned \<open>False\<close>.
\<close>

definition build_target ::
  "os_env \<Rightarrow> CommandOptions \<Rightarrow> string \<Rightarrow> string \<Rightarrow> string \<Rightarrow> world
     \<Rightarrow> (error + unit) \<times> world"
where
  "build_target env options schm json target w =
     (let target_file_dir = dirname target;
          (made, fs1) = (if \<not> path_exists (files w) target_file_dir
                         then makedirs env (files w) target_file_dir
                         else (None, files w));
          w1 = w\<lparr>files := fs1\<rparr>
      in case made of
           Some msg \<Rightarrow> (Inl (OSError msg), w1)
         | None \<Rightarrow>
            (case needs_rebuild fs1 json target of
               Inl e \<Rightarrow> (Inl e, w1)
             | Inr True \<Rightarrow>
                 convert_json_to_flatbuffers_binary env (flatc_path options) json schm
                   target_file_dir (schema_path options) w1
             | Inr False \<Rightarrow>
                 (case needs_rebuild fs1 schm target of
                    Inl e \<Rightarrow> (Inl e, w1)
                  | Inr True \<Rightarrow>
                      convert_json_to_flatbuffers_binary env (flatc_path options) json schm
                        target_file_dir (schema_path options) w1
                  | Inr False \<Rightarrow> (Inr (), w1))))"

definition build_file ::
  "os_env \<Rightarrow> CommandOptions \<Rightarrow> string \<Rightarrow> string \<Rightarrow> world \<Rightarrow> (error + unit) \<times> world"
where
  "build_file env options schm json w =
     build_target env options schm json
       (processed_json_path json (project_path options) (build_path options)) w"

fun build_files ::
  "os_env \<Rightarrow> CommandOptions \<Rightarrow> string \<Rightarrow> string list \<Rightarrow> world \<Rightarrow> (error + unit) \<times> world"
where
  "build_files env options schm [] w = (Inr (), w)"
| "build_files env options schm (json # rest) w =
     (case build_file env options schm json w of
        (Inl e, w') \<Rightarrow> (Inl e, w')
      | (Inr u, w') \<Rightarrow> build_files env options schm rest w')"

fun build_elements ::
  "os_env \<Rightarrow> CommandOptions \<Rightarrow> FlatbuffersConversionData list \<Rightarrow> world
     \<Rightarrow> (error + unit) \<times> world"
where
  "build_elements env options [] w = (Inr (), w)"
| "build_elements env options (element # rest) w =
     (case build_files env options (schema element) (input_files element) w of
        (Inl e, w') \<Rightarrow> (Inl e, w')
      | (Inr u, w') \<Rightarrow> build_elements env options rest w')"

definition generate_flatbuffers_binaries ::
  "os_env \<Rightarrow> CommandOptions \<Rightarrow> world \<Rightarrow> (error + unit) \<times> world"
where
  "generate_flatbuffers_binaries env options w =
     build_elements env options
       (get_conversion_data env (files w) (project_path options) [schema_path options]) w"

section \<open>\<open>clean_flatbuffers_binaries\<close>\<close>

definition clean_target :: "string \<Rightarrow> filesystem \<Rightarrow> error + filesystem" where
  "clean_target path fs = (if isfile fs path then os_remove fs path else Inr fs)"

definition clean_file :: "CommandOptions \<Rightarrow> string \<Rightarrow> filesystem \<Rightarrow> error + filesystem" where
  "clean_file options json fs =
     clean_target (processed_json_path json (project_path options) (build_path options)) fs"

fun clean_files :: "CommandOptions \<Rightarrow> string list \<Rightarrow> filesystem \<Rightarrow> error + filesystem" where
  "clean_files options [] fs = Inr fs"
| "clean_files options (json # rest) fs =
     (case clean_file options json fs of
        Inl e \<Rightarrow> Inl e
      | Inr fs' \<Rightarrow> clean_files options rest fs')"

fun clean_elements ::
  "CommandOptions \<Rightarrow> FlatbuffersConversionData list \<Rightarrow> filesystem \<Rightarrow> error + filesystem"
where
  "clean_elements options [] fs = Inr fs"
| "clean_elements options (element # rest) fs =
     (case clean_files options (input_files element) fs of
        Inl e \<Rightarrow> Inl e
      | Inr fs' \<Rightarrow> clean_elements options rest fs')"

definition clean_flatbuffers_binaries ::
  "os_env \<Rightarrow> CommandOptions \<Rightarrow> filesystem \<Rightarrow> error + filesystem"
where
  "clean_flatbuffers_binaries env options fs =
     clean_elements options
       (get_conversion_data env fs (project_path options) [schema_path options]) fs"

section \<open>The mapping from categories to sources to targets\<close>

text \<open>
  The values both loops range over, as one list: for every element of the conversion
  data, in order, and every input file of it, in order, the schema, the file and the
  target that \<open>processed_json_path\<close> gives it. \<open>build_targets\<close> and
  \<open>clean_targets\<close> run the two loop bodies over such a list.
\<close>

definition conversion_targets ::
  "os_env \<Rightarrow> CommandOptions \<Rightarrow> filesystem \<Rightarrow> (string \<times> string \<times> string) list"
where
  "conversion_targets env options fs =
     concat (map (\<lambda>element.
                    map (\<lambda>json. (schema element, json,
                           processed_json_path json (project_path options) (build_path options)))
                        (input_files element))
                 (get_conversion_data env fs (project_path options) [schema_path options]))"

fun build_targets ::
  "os_env \<Rightarrow> CommandOptions \<Rightarrow> (string \<times> string \<times> string) list \<Rightarrow> world
     \<Rightarrow> (error + unit) \<times> world"
where
  "build_targets env options [] w = (Inr (), w)"
| "build_targets env options ((schm, json, target) # rest) w =
     (case build_target env options schm json target w of
        (Inl e, w') \<Rightarrow> (Inl e, w')
      | (Inr u, w') \<Rightarrow> build_targets env options rest w')"

fun clean_targets :: "string list \<Rightarrow> filesystem \<Rightarrow> error + filesystem" where
  "clean_targets [] fs = Inr fs"
| "clean_targets (path # rest) fs =
     (case clean_target path fs of
        Inl e \<Rightarrow> Inl e
      | Inr fs' \<Rightarrow> clean_targets rest fs')"

text \<open>The command line of \<open>convert_json_to_flatbuffers_binary\<close> for one unit.\<close>

definition flatc_argv :: "CommandOptions \<Rightarrow> string \<Rightarrow> string \<Rightarrow> string \<Rightarrow> string list" where
  "flatc_argv options schm json target =
     [flatc_path options, ''-o'', dirname target, ''-I'', schema_path options, ''-b'', schm, json]"

section \<open>Contracts of the external collaborators\<close>



text \<open>
  The target that \<open>processed_json_path\<close> predicts for a unit is the file the compiler
  writes for it: the artifact of the unit's schema and source in the directory of the
  target, which is the directory the build passes with \<open>-o\<close>.
\<close>

definition targets_agree ::
  "(string \<Rightarrow> string \<Rightarrow> string) \<Rightarrow> (string \<times> string \<times> string) list \<Rightarrow> bool"
where
  "targets_agree artifact_name units =
     (\<forall>u \<in> set units.
        path_join (dirname (snd (snd u))) [artifact_name (fst u) (fst (snd u))] = snd (snd u))"



section \<open>Concrete environments for evaluating the model\<close>

definition demo_options :: CommandOptions where
  "demo_options =
     \<lparr>project_path = ''proj'', build_path = ''out'', flatc_path = ''flatc'',
      schema_path = ''schemas''\<rparr>"

text \<open>A project with two sounds and one event.\<close>

definition demo_glob :: "filesystem \<Rightarrow> string \<Rightarrow> bool \<Rightarrow> string list" where
  "demo_glob fs pattern recursive =
     (if pattern = ''proj/sounds/**/*.json'' then [''proj/sounds/a.json'', ''proj/sounds/b.json'']
      else if pattern = ''proj/events/**/*.json'' then [''proj/events/e.json'']
      else [])"

definition demo_makedirs :: "filesystem \<Rightarrow> string \<Rightarrow> string option \<times> filesystem" where
  "demo_makedirs fs d =
     (if d = [] then (Some d, fs)
      else if path_exists fs d then (Some d, fs)
      else (None, fs(d \<mapsto> Dir 0)))"

text \<open>
  A compiler with the convention of the schema compiler: the artifact is named after
  the base name of the data file, its extension replaced by the one of the schema. It
  writes the artifact into the directory given with \<open>-o\<close>, stamped with the later of
  the two times it read, and exits with status 2 when the data file or the schema is
  missing.
\<close>

definition strip_extension :: "string \<Rightarrow> string" where
  "strip_extension name =
     (if CHR ''.'' \<in> set name
      then rev (tl (dropWhile (\<lambda>c. c \<noteq> CHR ''.'') (rev name)))
      else name)"

definition demo_schema_extension :: "string \<Rightarrow> string" where
  "demo_schema_extension schm =
     (if str_in ''sound_definition'' schm then ''.amsound''
      else if str_in ''event_definition'' schm then ''.amevent''
      else ''.ambin'')"

definition demo_artifact_name :: "string \<Rightarrow> string \<Rightarrow> string" where
  "demo_artifact_name schm json = strip_extension (basename json) @ demo_schema_extension schm"

definition demo_flatc :: "filesystem \<Rightarrow> string list \<Rightarrow> proc" where
  "demo_flatc fs argv =
     (case argv of
        [flatc, o_flag, out_dir, i_flag, schm_path, b_flag, schm, json] \<Rightarrow>
          (case (fs json, fs schm) of
             (Some nj, Some ns) \<Rightarrow>
               Exited 0 (fs(path_join out_dir [demo_artifact_name schm json]
                              \<mapsto> File (max (mtime nj) (mtime ns))))
           | _ \<Rightarrow> Exited 2 fs)
      | _ \<Rightarrow> LaunchFailure ''usage'')"

definition demo_env :: os_env where
  "demo_env = \<lparr>glob = demo_glob, makedirs = demo_makedirs, popen = demo_flatc\<rparr>"

text \<open>The same project on a machine where the compiler cannot be started.\<close>

definition no_flatc_env :: os_env where
  "no_flatc_env =
     \<lparr>glob = demo_glob, makedirs = demo_makedirs,
      popen = (\<lambda>fs argv. LaunchFailure ''No such file or directory'')\<rparr>"

text \<open>A project whose only file is an environment.\<close>

definition environments_env :: os_env where
  "environments_env =
     \<lparr>glob = (\<lambda>fs pattern recursive.
                if pattern = ''proj/environments/**/*.json''
                then [''proj/environments/room.json''] else []),
      makedirs = demo_makedirs, popen = demo_flatc\<rparr>"

definition demo_files :: filesystem where
  "demo_files =
     [''proj/sounds/a.json'' \<mapsto> File 5,
      ''proj/sounds/b.json'' \<mapsto> File 7,
      ''proj/events/e.json'' \<mapsto> File 6,
      ''schemas/sound_definition.bfbs'' \<mapsto> File 3,
      ''schemas/event_definition.bfbs'' \<mapsto> File 3]"

text \<open>A target with the time of its source, older than the schema.\<close>

definition tie_files :: filesystem where
  "tie_files =
     [''proj/sounds/a.json'' \<mapsto> File 5,
      ''out/sounds/a.amsound'' \<mapsto> File 5,
      ''out/sounds'' \<mapsto> Dir 1,
      ''schemas/sound_definition.bfbs'' \<mapsto> File 9]"

text \<open>The project after a partial build: one target of three exists.\<close>

definition built_files :: filesystem where
  "built_files =
     [''proj/sounds/a.json'' \<mapsto> File 5,
      ''proj/sounds/b.json'' \<mapsto> File 7,
      ''proj/events/e.json'' \<mapsto> File 6,
      ''schemas/sound_definition.bfbs'' \<mapsto> File 3,
      ''schemas/event_definition.bfbs'' \<mapsto> File 3,
      ''out/sounds'' \<mapsto> Dir 0,
      ''out/sounds/a.amsound'' \<mapsto> File 9]"

text \<open>The project without the schema of its sounds.\<close>

definition no_schema_files :: filesystem where
  "no_schema_files =
     [''proj/sounds/a.json'' \<mapsto> File 5,
      ''proj/sounds/b.json'' \<mapsto> File 7,
      ''proj/events/e.json'' \<mapsto> File 6,
      ''schemas/event_definition.bfbs'' \<mapsto> File 3]"


text \<open>
  A project whose only source is a symbolic link to a file that is gone: the
  enumeration returns the link, and for \<open>os.path\<close> the path does not exist. Its target
  is there from an earlier build, older than the schema.
\<close>

definition dangling_env :: os_env where
  "dangling_env =
     \<lparr>glob = (\<lambda>fs pattern recursive.
                if pattern = ''proj/sounds/**/*.json''
                then [''proj/sounds/gone.json''] else []),
      makedirs = demo_makedirs, popen = demo_flatc\<rparr>"

definition dangling_files :: filesystem where
  "dangling_files =
     [''out/sounds'' \<mapsto> Dir 1,
      ''out/sounds/gone.amsound'' \<mapsto> File 5,
      ''schemas/sound_definition.bfbs'' \<mapsto> File 9]"

text \<open>A project built from inside its own directory: the project root is \<open>.\<close>.\<close>

definition dot_options :: CommandOptions where
  "dot_options =
     \<lparr>project_path = ''.'', build_path = ''out'', flatc_path = ''flatc'',
      schema_path = ''schemas''\<rparr>"

definition dot_env :: os_env where
  "dot_env =
     \<lparr>glob = (\<lambda>fs pattern recursive.
                if pattern = ''./sounds/**/*.json'' then [''./sounds/a.json''] else []),
      makedirs = demo_makedirs, popen = demo_flatc\<rparr>"

definition dot_files :: filesystem where
  "dot_files =
     [''./sounds/a.json'' \<mapsto> File 5,
      ''schemas/sound_definition.bfbs'' \<mapsto> File 3]"

section \<open>Evaluation rules\<close>

lemmas string_eval =
  endswith_def str_in_def dir_names suffix_to_prefix sublist_code

lemmas path_eval =
  processed_json_path_def output_extension_def string_eval

section \<open>Facts about \<open>str_replace\<close>\<close>

lemma str_replace_prefix:
  "old \<noteq> [] \<Longrightarrow> str_replace (old @ r) old new = new @ str_replace r old new"
  by (cases old) simp_all

lemma str_replace_no_prefix:
  "old \<noteq> [] \<Longrightarrow> \<not> prefix old (c # cs) \<Longrightarrow>
   str_replace (c # cs) old new = c # str_replace cs old new"
  by simp

text \<open>\<open>.json\<close> does not overlap itself: its first character occurs nowhere else in it.\<close>

lemma json_no_overlap:
  assumes "\<not> prefix ''.json'' (c # cs)"
  shows "\<not> prefix ''.json'' ((c # cs) @ ''.json'')"
proof
  assume "prefix ''.json'' ((c # cs) @ ''.json'')"
  then obtain us where us: "''.json'' = (c # cs) @ us" "prefix us ''.json''"
    using assms by (auto simp: prefix_append)
  from us(1) have "cs @ us = ''json''" by simp
  then have sub: "set us \<subseteq> set ''json''" by (metis set_append Un_upper2)
  show False
  proof (cases us)
    case Nil
    with us(1) assms show False by simp
  next
    case (Cons u us')
    with us(2) have "u = CHR ''.''" by simp
    with Cons sub show False by simp
  qed
qed

lemma str_replace_json_end:
  "str_replace (a @ ''.json'') ''.json'' new = str_replace a ''.json'' new @ new"
proof (induction a rule: length_induct)
  case (1 a)
  show ?case
  proof (cases a)
    case Nil
    show ?thesis unfolding Nil using str_replace_prefix[of "''.json''" "[]" new] by simp
  next
    case (Cons c cs)
    show ?thesis
    proof (cases "prefix ''.json'' (c # cs)")
      case True
      then obtain r where r: "a = ''.json'' @ r" unfolding Cons by (auto simp: prefix_def)
      have "length r < length a" unfolding r by simp
      with 1 have IH:
        "str_replace (r @ ''.json'') ''.json'' new = str_replace r ''.json'' new @ new"
        by blast
      have "str_replace (a @ ''.json'') ''.json'' new
              = new @ str_replace (r @ ''.json'') ''.json'' new"
        unfolding r using str_replace_prefix[of "''.json''" "r @ ''.json''" new] by simp
      moreover have "str_replace a ''.json'' new = new @ str_replace r ''.json'' new"
        unfolding r using str_replace_prefix[of "''.json''" r new] by simp
      ultimately show ?thesis using IH by simp
    next
      case False
      from json_no_overlap[OF False]
      have F2: "\<not> prefix ''.json'' (c # (cs @ ''.json''))" by simp
      have IH: "str_replace (cs @ ''.json'') ''.json'' new = str_replace cs ''.json'' new @ new"
        using 1 Cons by simp
      have "str_replace (a @ ''.json'') ''.json'' new
              = c # str_replace (cs @ ''.json'') ''.json'' new"
        unfolding Cons using str_replace_no_prefix[OF _ F2] by simp
      moreover have "str_replace a ''.json'' new = c # str_replace cs ''.json'' new"
        unfolding Cons using str_replace_no_prefix[OF _ False] by simp
      ultimately show ?thesis using IH by simp
    qed
  qed
qed

lemma substituted_ends_with:
  assumes "endswith path ''.json''"
  shows "endswith (str_replace path ''.json'' ext) ext"
proof -
  from assms obtain a where "path = a @ ''.json''"
    by (auto simp: endswith_def suffix_def)
  then show ?thesis
    using str_replace_json_end[of a ext] by (simp add: endswith_def suffix_def)
qed

section \<open>The priority chain of \<open>processed_json_path\<close>\<close>

lemma first_match_earliest:
  "i < length rs \<Longrightarrow> fst (rs ! i) p \<Longrightarrow> (\<forall>j<i. \<not> fst (rs ! j) p) \<Longrightarrow>
   first_match rs p = snd (rs ! i)"
proof (induction rs arbitrary: i)
  case Nil
  then show ?case by simp
next
  case (Cons r rs)
  obtain f e where r: "r = (f, e)" by (cases r)
  show ?case
  proof (cases i)
    case 0
    with Cons.prems r show ?thesis by simp
  next
    case (Suc k)
    with Cons.prems have "\<not> f p" using r by auto
    moreover have "first_match rs p = snd (rs ! k)"
      using Cons.prems Suc by (intro Cons.IH) auto
    ultimately show ?thesis using r Suc by simp
  qed
qed

lemma first_match_none:
  "(\<forall>r \<in> set rs. \<not> fst r p) \<Longrightarrow> first_match rs p = ''.ambin''"
  by (induction rs) auto

lemma output_extension_chain: "output_extension path = first_match extension_rules path"
  by (simp add: output_extension_def extension_rules_def dir_names)

text \<open>
  C1, as the specification states it, puts the sounds rule before the events rule, so
  that a path with a \<open>sounds\<close> and an \<open>events\<close> segment would get \<open>.amsound\<close>. The
  code tests events first: such a path gets \<open>.amevent\<close>.
\<close>

theorem sounds_events_precedence_counterexample:
  "str_in ''sounds'' ''/proj/sounds/events/x.json'' \<and>
   str_in ''events'' ''/proj/sounds/events/x.json'' \<and>
   processed_json_path ''/proj/sounds/events/x.json'' ''/proj'' ''/out''
     = ''/out/sounds/events/x.amevent'' \<and>
   \<not> endswith (processed_json_path ''/proj/sounds/events/x.json'' ''/proj'' ''/out'')
       ''.amsound''"
  by (simp add: path_eval)

text \<open>
  C1, amended: the extension that \<open>processed_json_path\<close> substitutes for \<open>.json\<close> is
  chosen by a strict priority chain in the order config.json suffix, buses.json suffix,
  soundbanks, collections, events, pipelines, attenuators, switches, switch_containers,
  rtpc, sounds, environments, else \<open>.ambin\<close>, each directory rule being a substring
  test on the whole path. The extension is that of the earliest rule of this list that
  matches; a path that contains both \<open>sounds\<close> and \<open>events\<close> and matches no earlier
  rule gets \<open>.amevent\<close>; and for a path ending in \<open>.json\<close> the substitution yields a
  path ending in the chosen extension.
\<close>

theorem extension_priority_chain:
  "output_extension path = first_match extension_rules path \<and>
   processed_json_path path inp out
     = str_replace (str_replace path ''.json'' (first_match extension_rules path)) inp out \<and>
   (\<forall>i<length extension_rules.
      fst (extension_rules ! i) path \<and> (\<forall>j<i. \<not> fst (extension_rules ! j) path)
      \<longrightarrow> output_extension path = snd (extension_rules ! i)) \<and>
   ((\<forall>r \<in> set extension_rules. \<not> fst r path) \<longrightarrow> output_extension path = ''.ambin'') \<and>
   (str_in ''sounds'' path \<and> str_in ''events'' path \<and>
    \<not> endswith path ''config.json'' \<and> \<not> endswith path ''buses.json'' \<and>
    \<not> str_in ''soundbanks'' path \<and> \<not> str_in ''collections'' path
      \<longrightarrow> output_extension path = ''.amevent'') \<and>
   (endswith path ''.json''
      \<longrightarrow> endswith (str_replace path ''.json'' (output_extension path))
            (output_extension path))"
proof (intro conjI allI impI)
  show "output_extension path = first_match extension_rules path"
    by (rule output_extension_chain)
  show "processed_json_path path inp out
     = str_replace (str_replace path ''.json'' (first_match extension_rules path)) inp out"
    by (simp add: processed_json_path_def output_extension_chain)
next
  fix i
  assume "i < length extension_rules"
    and "fst (extension_rules ! i) path \<and> (\<forall>j<i. \<not> fst (extension_rules ! j) path)"
  then show "output_extension path = snd (extension_rules ! i)"
    using first_match_earliest[of i extension_rules path]
    by (simp add: output_extension_chain)
next
  assume "\<forall>r \<in> set extension_rules. \<not> fst r path"
  then show "output_extension path = ''.ambin''"
    using first_match_none[of extension_rules path] by (simp add: output_extension_chain)
next
  assume "str_in ''sounds'' path \<and> str_in ''events'' path \<and>
    \<not> endswith path ''config.json'' \<and> \<not> endswith path ''buses.json'' \<and>
    \<not> str_in ''soundbanks'' path \<and> \<not> str_in ''collections'' path"
  then show "output_extension path = ''.amevent''"
    by (simp add: output_extension_def dir_names)
next
  assume "endswith path ''.json''"
  then show "endswith (str_replace path ''.json'' (output_extension path))
            (output_extension path)"
    by (rule substituted_ends_with)
qed

theorem extension_priority_chain_witness:
  "4 < length extension_rules \<and>
   fst (extension_rules ! 4) ''/proj/sounds/events/x.json'' \<and>
   \<not> fst (extension_rules ! 0) ''/proj/sounds/events/x.json'' \<and>
   \<not> fst (extension_rules ! 1) ''/proj/sounds/events/x.json'' \<and>
   \<not> fst (extension_rules ! 2) ''/proj/sounds/events/x.json'' \<and>
   \<not> fst (extension_rules ! 3) ''/proj/sounds/events/x.json'' \<and>
   str_in ''sounds'' ''/proj/sounds/events/x.json'' \<and>
   str_in ''events'' ''/proj/sounds/events/x.json'' \<and>
   endswith ''/proj/sounds/events/x.json'' ''.json'' \<and>
   output_extension ''/proj/sounds/events/x.json'' = snd (extension_rules ! 4) \<and>
   output_extension ''/proj/sounds/events/x.json'' = ''.amevent'' \<and>
   endswith (str_replace ''/proj/sounds/events/x.json'' ''.json'' ''.amevent'') ''.amevent'' \<and>
   \<not> endswith ''/proj/effects/x.json'' ''config.json'' \<and>
   \<not> endswith ''/proj/effects/x.json'' ''buses.json'' \<and>
   \<not> str_in ''soundbanks'' ''/proj/effects/x.json'' \<and>
   \<not> str_in ''collections'' ''/proj/effects/x.json'' \<and>
   \<not> str_in ''events'' ''/proj/effects/x.json'' \<and>
   \<not> str_in ''pipelines'' ''/proj/effects/x.json'' \<and>
   \<not> str_in ''attenuators'' ''/proj/effects/x.json'' \<and>
   \<not> str_in ''switches'' ''/proj/effects/x.json'' \<and>
   \<not> str_in ''switch_containers'' ''/proj/effects/x.json'' \<and>
   \<not> str_in ''rtpc'' ''/proj/effects/x.json'' \<and>
   \<not> str_in ''sounds'' ''/proj/effects/x.json'' \<and>
   \<not> str_in ''environments'' ''/proj/effects/x.json'' \<and>
   output_extension ''/proj/effects/x.json'' = ''.ambin''"
  using extension_priority_chain[of "''/proj/sounds/events/x.json''" "''/proj''" "''/out''"]
    extension_priority_chain[of "''/proj/effects/x.json''" "''/proj''" "''/out''"]
  by (simp add: extension_rules_def string_eval)

section \<open>The rewriting of the project root\<close>

text \<open>
  The rewriting keeps a suffix in which the last character of the project root does not
  occur: no occurrence of the root can reach into it.
\<close>

lemma str_replace_absent:
  "old \<noteq> [] \<Longrightarrow> last old \<notin> set s \<Longrightarrow> str_replace s old new = s"
proof (induction s)
  case Nil
  then show ?case by simp
next
  case (Cons c cs)
  have "\<not> prefix old (c # cs)"
  proof
    assume "prefix old (c # cs)"
    then have "set old \<subseteq> set (c # cs)" by (rule set_mono_prefix)
    with Cons.prems show False using last_in_set by blast
  qed
  with Cons show ?case by simp
qed

lemma prefix_keeps_suffix:
  assumes "old \<noteq> []" "last old \<notin> set suf"
  shows "prefix old (t @ suf) \<longleftrightarrow> prefix old t"
proof
  assume "prefix old (t @ suf)"
  then consider "prefix old t" | us where "old = t @ us" "prefix us suf"
    by (auto simp: prefix_append)
  then show "prefix old t"
  proof cases
    case 1
    then show ?thesis .
  next
    case 2
    show ?thesis
    proof (cases us)
      case Nil
      with 2 show ?thesis by simp
    next
      case (Cons u us')
      then have "last old = last us" using 2 by simp
      moreover have "set us \<subseteq> set suf" using 2(2) by (rule set_mono_prefix)
      moreover have "last us \<in> set us" using Cons by simp
      ultimately show ?thesis using assms by auto
    qed
  qed
next
  assume "prefix old t"
  then show "prefix old (t @ suf)" by (rule prefix_prefix)
qed

lemma str_replace_keeps_suffix:
  assumes "old \<noteq> []" "last old \<notin> set suf"
  shows "str_replace (t @ suf) old new = str_replace t old new @ suf"
proof (induction t rule: length_induct)
  case (1 t)
  show ?case
  proof (cases t)
    case Nil
    then show ?thesis using str_replace_absent[OF assms] assms by simp
  next
    case (Cons c cs)
    show ?thesis
    proof (cases "prefix old (c # cs)")
      case True
      then obtain r where r: "t = old @ r" unfolding Cons by (auto simp: prefix_def)
      have "length r < length t" unfolding r using assms by simp
      with 1 have IH: "str_replace (r @ suf) old new = str_replace r old new @ suf" by blast
      show ?thesis unfolding r using str_replace_prefix[OF assms(1)] IH
        by (metis append.assoc)
    next
      case False
      with prefix_keeps_suffix[OF assms, of "c # cs"]
      have F2: "\<not> prefix old (c # (cs @ suf))" by simp
      have IH: "str_replace (cs @ suf) old new = str_replace cs old new @ suf"
        using 1 Cons by simp
      show ?thesis unfolding Cons using str_replace_no_prefix[OF assms(1) F2]
         str_replace_no_prefix[OF assms(1) False] IH by simp
    qed
  qed
qed

lemma processed_json_path_keeps_extension:
  assumes "endswith path ''.json''" "input_path \<noteq> []"
    "last input_path \<notin> set (output_extension path)"
  shows "endswith (processed_json_path path input_path output_path) (output_extension path)"
proof -
  from substituted_ends_with[OF assms(1), of "output_extension path"]
  obtain t where "str_replace path ''.json'' (output_extension path)
                   = t @ output_extension path"
    by (auto simp: endswith_def suffix_def)
  then show ?thesis
    using str_replace_keeps_suffix[OF assms(2,3), of t output_path]
    by (simp add: processed_json_path_def endswith_def suffix_def)
qed

text \<open>
  C3: a source whose file name ends in \<open>config.json\<close> should map to a path ending in
  \<open>.amconfig\<close>. The substitution of the extension does that, but the second
  \<open>replace\<close> rewrites every occurrence of the project root, not only the leading one:
  with the project root \<open>.\<close> the dots of the file name, the one of the extension
  included, are rewritten as well.
\<close>

theorem config_path_under_dot_root:
  "endswith ''./game.config.json'' ''config.json'' \<and>
   str_replace ''./game.config.json'' ''.json'' (output_extension ''./game.config.json'')
     = ''./game.config.amconfig'' \<and>
   processed_json_path ''./game.config.json'' ''.'' ''build''
     = ''build/gamebuildconfigbuildamconfig'' \<and>
   \<not> endswith (processed_json_path ''./game.config.json'' ''.'' ''build'') ''.amconfig''"
  by (simp add: path_eval)

text \<open>
  C9: a source that matches none of the naming rules, such as a file of the effects
  category, should map to a path ending in \<open>.ambin\<close>. The substitution of the
  extension does that, and the rewriting of the project root \<open>.\<close> destroys it.
\<close>

theorem effects_path_under_dot_root:
  "output_extension ''./effects/reverb.json'' = ''.ambin'' \<and>
   str_replace ''./effects/reverb.json'' ''.json'' (output_extension ''./effects/reverb.json'')
     = ''./effects/reverb.ambin'' \<and>
   processed_json_path ''./effects/reverb.json'' ''.'' ''build''
     = ''build/effects/reverbbuildambin'' \<and>
   \<not> endswith (processed_json_path ''./effects/reverb.json'' ''.'' ''build'') ''.ambin''"
  by (simp add: path_eval)

section \<open>The conversion data\<close>

text \<open>
  C2: every run should enumerate the sources of every category, the environments
  included. \<open>get_conversion_data\<close> has twelve elements, none of which looks under
  \<open>ENVIRONMENTS_DIR_NAME\<close>, although \<open>processed_json_path\<close> has an extension for that
  directory: in a project whose only source is an environment, nothing is enumerated
  and a build does nothing.
\<close>

theorem environments_not_enumerated:
  "glob environments_env [''proj/environments/room.json'' \<mapsto> File 1]
     (path_join ''proj'' [ENVIRONMENTS_DIR_NAME, ''**/*.json'']) True
     = [''proj/environments/room.json''] \<and>
   processed_json_path ''proj/environments/room.json'' ''proj'' ''out''
     = ''out/environments/room.amenv'' \<and>
   length (get_conversion_data environments_env [''proj/environments/room.json'' \<mapsto> File 1]
             ''proj'' [''schemas'']) = 12 \<and>
   concat (map input_files
     (get_conversion_data environments_env [''proj/environments/room.json'' \<mapsto> File 1]
        ''proj'' [''schemas''])) = [] \<and>
   generate_flatbuffers_binaries environments_env demo_options
     \<lparr>files = [''proj/environments/room.json'' \<mapsto> File 1], invoked = []\<rparr>
     = (Inr (), \<lparr>files = [''proj/environments/room.json'' \<mapsto> File 1], invoked = []\<rparr>)"
  by (simp add: generate_flatbuffers_binaries_def get_conversion_data_def
      environments_env_def demo_options_def path_eval)

section \<open>The schema resolver\<close>

text \<open>
  C7: \<open>find_in_paths\<close> returns the join of the first search path, in order, under
  which the name is a regular file, and the bare name when there is none. It is a total
  function to paths: neither the join nor the file test raises. For a relative name
  and a search path that is not empty and has no trailing separator the join is the
  search path, a separator and the name.
\<close>

theorem find_in_paths_first_match:
  "((\<exists>i<length paths.
        isfile fs (path_join (paths ! i) [name]) \<and>
        (\<forall>j<i. \<not> isfile fs (path_join (paths ! j) [name])) \<and>
        find_in_paths fs name paths = path_join (paths ! i) [name])
    \<or> ((\<forall>p \<in> set paths. \<not> isfile fs (path_join p [name])) \<and>
        find_in_paths fs name paths = name)) \<and>
   (\<forall>p. \<not> prefix ''/'' name \<and> p \<noteq> [] \<and> \<not> endswith p ''/''
        \<longrightarrow> path_join p [name] = p @ ''/'' @ name)"
proof (intro conjI allI impI)
  show "(\<exists>i<length paths.
        isfile fs (path_join (paths ! i) [name]) \<and>
        (\<forall>j<i. \<not> isfile fs (path_join (paths ! j) [name])) \<and>
        find_in_paths fs name paths = path_join (paths ! i) [name])
    \<or> ((\<forall>p \<in> set paths. \<not> isfile fs (path_join p [name])) \<and>
        find_in_paths fs name paths = name)"
  proof (induction paths)
    case Nil
    show ?case by simp
  next
    case (Cons p ps)
    show ?case
    proof (cases "isfile fs (path_join p [name])")
      case True
      then have "0 < length (p # ps) \<and> isfile fs (path_join ((p # ps) ! 0) [name]) \<and>
        (\<forall>j<0. \<not> isfile fs (path_join ((p # ps) ! j) [name])) \<and>
        find_in_paths fs name (p # ps) = path_join ((p # ps) ! 0) [name]"
        by (simp del: path_join.simps)
      then show ?thesis by blast
    next
      case False
      from Cons.IH show ?thesis
      proof
        assume "\<exists>i<length ps. isfile fs (path_join (ps ! i) [name]) \<and>
          (\<forall>j<i. \<not> isfile fs (path_join (ps ! j) [name])) \<and>
          find_in_paths fs name ps = path_join (ps ! i) [name]"
        then obtain i where i: "i < length ps" "isfile fs (path_join (ps ! i) [name])"
          "\<forall>j<i. \<not> isfile fs (path_join (ps ! j) [name])"
          "find_in_paths fs name ps = path_join (ps ! i) [name]" by blast
        have "\<forall>j<Suc i. \<not> isfile fs (path_join ((p # ps) ! j) [name])"
          using i(3) False by (auto simp: less_Suc_eq_0_disj simp del: path_join.simps)
        with i False
        have "Suc i < length (p # ps) \<and> isfile fs (path_join ((p # ps) ! Suc i) [name]) \<and>
          (\<forall>j<Suc i. \<not> isfile fs (path_join ((p # ps) ! j) [name])) \<and>
          find_in_paths fs name (p # ps) = path_join ((p # ps) ! Suc i) [name]"
          by (simp del: path_join.simps)
        then show ?thesis by blast
      next
        assume "(\<forall>p \<in> set ps. \<not> isfile fs (path_join p [name])) \<and>
          find_in_paths fs name ps = name"
        with False show ?thesis by (simp del: path_join.simps)
      qed
    qed
  qed
next
  fix p
  assume "\<not> prefix ''/'' name \<and> p \<noteq> [] \<and> \<not> endswith p ''/''"
  then show "path_join p [name] = p @ ''/'' @ name" by simp
qed

theorem find_in_paths_first_match_witness:
  "\<not> isfile [''b/s.bfbs'' \<mapsto> File 1, ''c/s.bfbs'' \<mapsto> File 2] (path_join ''a'' [''s.bfbs'']) \<and>
   isfile [''b/s.bfbs'' \<mapsto> File 1, ''c/s.bfbs'' \<mapsto> File 2] (path_join ''b'' [''s.bfbs'']) \<and>
   find_in_paths [''b/s.bfbs'' \<mapsto> File 1, ''c/s.bfbs'' \<mapsto> File 2] ''s.bfbs'' [''a'', ''b'', ''c'']
     = ''b/s.bfbs'' \<and>
   \<not> prefix ''/'' ''s.bfbs'' \<and> ''b'' \<noteq> [] \<and> \<not> endswith ''b'' ''/'' \<and>
   path_join ''b'' [''s.bfbs''] = ''b'' @ ''/'' @ ''s.bfbs'' \<and>
   \<not> isfile Map.empty (path_join ''a'' [''s.bfbs'']) \<and>
   find_in_paths Map.empty ''s.bfbs'' [''a''] = ''s.bfbs''"
  using find_in_paths_first_match
          [of "[''a'', ''b'', ''c'']" "[''b/s.bfbs'' \<mapsto> File 1, ''c/s.bfbs'' \<mapsto> File 2]"
              "''s.bfbs''"]
        find_in_paths_first_match [of "[''a'']" Map.empty "''s.bfbs''"]
  by (simp add: isfile_def string_eval)

section \<open>Staleness\<close>

lemma needs_rebuild_total:
  "path_exists fs source \<Longrightarrow> \<exists>b. needs_rebuild fs source target = Inr b"
  by (auto simp: needs_rebuild_def isfile_def path_exists_def getmtime_def
      split: option.splits node.splits)

lemma run_subprocess_invoked:
  "invoked (snd (run_subprocess env argv w)) = invoked w @ [argv]"
  by (simp add: run_subprocess_def split: proc.splits)

section \<open>The loops over the conversion data\<close>

lemma build_targets_append:
  "build_targets env options (xs @ ys) w =
     (case build_targets env options xs w of
        (Inl e, w') \<Rightarrow> (Inl e, w')
      | (Inr u, w') \<Rightarrow> build_targets env options ys w')"
proof (induction xs arbitrary: w)
  case Nil
  show ?case by simp
next
  case (Cons x xs)
  obtain schm json target where x: "x = (schm, json, target)" by (cases x)
  show ?case
    unfolding x using Cons.IH
    by (cases "build_target env options schm json target w")
       (auto split: sum.splits prod.splits)
qed

lemma build_files_flat:
  "build_files env options schm jsons w =
     build_targets env options
       (map (\<lambda>json. (schm, json,
               processed_json_path json (project_path options) (build_path options))) jsons) w"
proof (induction jsons arbitrary: w)
  case Nil
  show ?case by simp
next
  case (Cons json jsons)
  show ?case
    using Cons.IH
    by (cases "build_file env options schm json w")
       (auto simp: build_file_def split: sum.splits prod.splits)
qed

lemma build_elements_flat:
  "build_elements env options elements w =
     build_targets env options
       (concat (map (\<lambda>element.
                  map (\<lambda>json. (schema element, json,
                         processed_json_path json (project_path options) (build_path options)))
                      (input_files element)) elements)) w"
proof (induction elements arbitrary: w)
  case Nil
  show ?case by simp
next
  case (Cons element elements)
  show ?case
    using Cons.IH
    by (simp add: build_targets_append build_files_flat split: sum.splits prod.splits)
qed

lemma generate_flat:
  "generate_flatbuffers_binaries env options w =
     build_targets env options (conversion_targets env options (files w)) w"
  by (simp add: generate_flatbuffers_binaries_def conversion_targets_def build_elements_flat)

lemma clean_targets_append:
  "clean_targets (xs @ ys) fs =
     (case clean_targets xs fs of Inl e \<Rightarrow> Inl e | Inr fs' \<Rightarrow> clean_targets ys fs')"
  by (induction xs arbitrary: fs) (auto split: sum.splits)

lemma clean_files_flat:
  "clean_files options jsons fs =
     clean_targets
       (map (\<lambda>json. processed_json_path json (project_path options) (build_path options))
          jsons) fs"
  by (induction jsons arbitrary: fs) (auto simp: clean_file_def split: sum.splits)

lemma clean_elements_flat:
  "clean_elements options elements fs =
     clean_targets
       (concat (map (\<lambda>element.
                  map (\<lambda>json. processed_json_path json (project_path options)
                                (build_path options))
                      (input_files element)) elements)) fs"
  by (induction elements arbitrary: fs)
     (auto simp: clean_targets_append clean_files_flat split: sum.splits)

lemma targets_of_conversion:
  "map (snd \<circ> snd) (conversion_targets env options fs) =
     concat (map (\<lambda>element.
               map (\<lambda>json. processed_json_path json (project_path options)
                             (build_path options))
                   (input_files element))
            (get_conversion_data env fs (project_path options) [schema_path options]))"
  by (simp add: conversion_targets_def map_concat comp_def)

lemma clean_flat:
  "clean_flatbuffers_binaries env options fs =
     clean_targets (map (snd \<circ> snd) (conversion_targets env options fs)) fs"
  by (simp only: targets_of_conversion clean_flatbuffers_binaries_def clean_elements_flat)

lemma clean_targets_result:
  "clean_targets ts fs = Inr (\<lambda>p. if p \<in> set ts \<and> isfile fs p then None else fs p)"
proof (induction ts arbitrary: fs)
  case Nil
  show ?case by simp
next
  case (Cons t ts)
  show ?case
  proof (cases "isfile fs t")
    case True
    have "clean_targets (t # ts) fs = clean_targets ts (fs(t := None))"
      using True by (simp add: clean_target_def os_remove_def)
    also have "\<dots> = Inr (\<lambda>p. if p \<in> set ts \<and> isfile (fs(t := None)) p then None
                              else (fs(t := None)) p)"
      by (rule Cons.IH)
    also have "(\<lambda>p. if p \<in> set ts \<and> isfile (fs(t := None)) p then None
                    else (fs(t := None)) p)
             = (\<lambda>p. if p \<in> set (t # ts) \<and> isfile fs p then None else fs p)"
      using True by (auto simp: fun_eq_iff isfile_def)
    finally show ?thesis .
  next
    case False
    have "clean_targets (t # ts) fs = clean_targets ts fs"
      using False by (simp add: clean_target_def)
    also have "\<dots> = Inr (\<lambda>p. if p \<in> set ts \<and> isfile fs p then None else fs p)"
      by (rule Cons.IH)
    also have "(\<lambda>p. if p \<in> set ts \<and> isfile fs p then None else fs p)
             = (\<lambda>p. if p \<in> set (t # ts) \<and> isfile fs p then None else fs p)"
      using False by (auto simp: fun_eq_iff)
    finally show ?thesis .
  qed
qed

lemmas demo_eval =
  conversion_targets_def get_conversion_data_def demo_env_def demo_glob_def demo_options_def
  isfile_def path_eval

section \<open>Cleaning\<close>

text \<open>
  C8: \<open>clean_flatbuffers_binaries\<close> ranges over the same list of targets as
  \<open>generate_flatbuffers_binaries\<close>, the one of \<open>conversion_targets\<close>, and looks at no
  modification time. It never raises; afterwards exactly the targets of the list that
  were regular files are gone and every other path, every directory in particular, is
  as before.
\<close>

theorem clean_removes_exactly_the_targets:
  "(\<exists>fs'. clean_flatbuffers_binaries env options fs = Inr fs' \<and>
      (\<forall>p. fs' p =
        (if p \<in> set (map (snd \<circ> snd) (conversion_targets env options fs)) \<and> isfile fs p
         then None else fs p)) \<and>
      (\<forall>p t. fs p = Some (Dir t) \<longrightarrow> fs' p = Some (Dir t))) \<and>
   clean_flatbuffers_binaries env options fs
     = clean_targets (map (snd \<circ> snd) (conversion_targets env options fs)) fs \<and>
   generate_flatbuffers_binaries env options w
     = build_targets env options (conversion_targets env options (files w)) w"
proof (intro conjI)
  let ?ts = "map (snd \<circ> snd) (conversion_targets env options fs)"
  let ?fs' = "\<lambda>p. if p \<in> set ?ts \<and> isfile fs p then None else fs p"
  have "clean_flatbuffers_binaries env options fs = Inr ?fs'"
    by (simp only: clean_flat clean_targets_result)
  moreover have "\<forall>p t. fs p = Some (Dir t) \<longrightarrow> ?fs' p = Some (Dir t)"
    by (simp add: isfile_def)
  ultimately show "\<exists>fs'. clean_flatbuffers_binaries env options fs = Inr fs' \<and>
      (\<forall>p. fs' p = (if p \<in> set ?ts \<and> isfile fs p then None else fs p)) \<and>
      (\<forall>p t. fs p = Some (Dir t) \<longrightarrow> fs' p = Some (Dir t))"
    by blast
  show "clean_flatbuffers_binaries env options fs = clean_targets ?ts fs"
    by (rule clean_flat)
  show "generate_flatbuffers_binaries env options w
     = build_targets env options (conversion_targets env options (files w)) w"
    by (rule generate_flat)
qed

lemma demo_conversion_targets:
  "conversion_targets demo_env demo_options fs =
     [(find_in_paths fs ''sound_definition.bfbs'' [''schemas''],
       ''proj/sounds/a.json'', ''out/sounds/a.amsound''),
      (find_in_paths fs ''sound_definition.bfbs'' [''schemas''],
       ''proj/sounds/b.json'', ''out/sounds/b.amsound''),
      (find_in_paths fs ''event_definition.bfbs'' [''schemas''],
       ''proj/events/e.json'', ''out/events/e.amevent'')]"
  by (simp add: demo_eval del: find_in_paths.simps)

theorem clean_removes_exactly_the_targets_witness:
  "map (snd \<circ> snd) (conversion_targets demo_env demo_options built_files)
     = [''out/sounds/a.amsound'', ''out/sounds/b.amsound'', ''out/events/e.amevent''] \<and>
   isfile built_files ''out/sounds/a.amsound'' \<and>
   \<not> isfile built_files ''out/sounds/b.amsound'' \<and>
   built_files ''out/sounds'' = Some (Dir 0) \<and>
   (\<exists>fs'. clean_flatbuffers_binaries demo_env demo_options built_files = Inr fs' \<and>
      fs' ''out/sounds/a.amsound'' = None \<and>
      fs' ''out/sounds/b.amsound'' = None \<and>
      fs' ''out/sounds'' = Some (Dir 0) \<and>
      fs' ''proj/sounds/a.json'' = Some (File 5))"
proof -
  from clean_removes_exactly_the_targets[of demo_env demo_options built_files]
  obtain fs' where c: "clean_flatbuffers_binaries demo_env demo_options built_files = Inr fs'"
    and r: "\<forall>p. fs' p =
        (if p \<in> set (map (snd \<circ> snd) (conversion_targets demo_env demo_options built_files))
            \<and> isfile built_files p
         then None else built_files p)"
    by blast
  have t: "map (snd \<circ> snd) (conversion_targets demo_env demo_options built_files)
     = [''out/sounds/a.amsound'', ''out/sounds/b.amsound'', ''out/events/e.amevent'']"
    by (simp add: demo_conversion_targets del: find_in_paths.simps)
  note r' = r[unfolded t]
  have "fs' ''out/sounds/a.amsound'' = None" "fs' ''out/sounds/b.amsound'' = None"
    "fs' ''out/sounds'' = Some (Dir 0)" "fs' ''proj/sounds/a.json'' = Some (File 5)"
    by (simp_all add: r' built_files_def isfile_def)
  moreover have "isfile built_files ''out/sounds/a.amsound''"
    "\<not> isfile built_files ''out/sounds/b.amsound''" "built_files ''out/sounds'' = Some (Dir 0)"
    by (simp_all add: built_files_def isfile_def)
  ultimately show ?thesis using c t by blast
qed

section \<open>Failures of the compiler\<close>

lemma build_target_started:
  assumes "invoked (snd (build_target env options schm json target w)) \<noteq> invoked w"
  shows "\<exists>fs1. build_target env options schm json target w
           = run_subprocess env (flatc_argv options schm json target) (w\<lparr>files := fs1\<rparr>)"
proof -
  obtain made fs1 where m:
    "(if \<not> path_exists (files w) (dirname target)
      then makedirs env (files w) (dirname target) else (None, files w)) = (made, fs1)"
    by (cases "if \<not> path_exists (files w) (dirname target)
               then makedirs env (files w) (dirname target) else (None, files w)")
  have "build_target env options schm json target w
          = run_subprocess env (flatc_argv options schm json target) (w\<lparr>files := fs1\<rparr>)"
    using assms m
    by (auto simp: build_target_def Let_def convert_json_to_flatbuffers_binary_def
          flatc_argv_def split: option.splits sum.splits bool.splits)
  then show ?thesis by blast
qed

lemma build_target_BuildError:
  assumes "build_target env options schm json target w = (Inl (BuildError a c m), w')"
  shows "a = flatc_argv options schm json target \<and> invoked w' = invoked w @ [a] \<and> c \<noteq> 0"
proof -
  obtain made fs1 where m:
    "(if \<not> path_exists (files w) (dirname target)
      then makedirs env (files w) (dirname target) else (None, files w)) = (made, fs1)"
    by (cases "if \<not> path_exists (files w) (dirname target)
               then makedirs env (files w) (dirname target) else (None, files w)")
  have nr: "needs_rebuild fs s t \<noteq> Inl (BuildError a c m)" for fs s t
    by (auto simp: needs_rebuild_def getmtime_def split: option.splits)
  have rs: "run_subprocess env (flatc_argv options schm json target) (w\<lparr>files := fs1\<rparr>)
              = (Inl (BuildError a c m), w')"
    using assms m nr[of fs1 json target] nr[of fs1 schm target]
    by (auto simp: build_target_def Let_def convert_json_to_flatbuffers_binary_def
          flatc_argv_def split: option.splits sum.splits bool.splits)
  then show ?thesis
    by (auto simp: run_subprocess_def split: proc.splits if_splits)
qed

text \<open>
  C5: when the compiler cannot be launched \<open>run_subprocess\<close> raises the
  \<open>BuildError\<close> of the command line with code 1 and the system's message, and when it
  exits with a non-zero status the \<open>BuildError\<close> of the command line with that status.
  A unit that starts the compiler returns what \<open>run_subprocess\<close> returns, and a
  \<open>BuildError\<close> of a unit carries the command line of that unit, the last one started.
  The run ends with the error and the state of the first unit that fails, whatever
  files and categories come after it.
\<close>

theorem compiler_failure_aborts_build:
  "(popen env (files w) argv = LaunchFailure msg \<longrightarrow>
      run_subprocess env argv w
        = (Inl (BuildError argv 1 msg), w\<lparr>invoked := invoked w @ [argv]\<rparr>)) \<and>
   (popen env (files w) argv = Exited rc fs' \<and> rc \<noteq> 0 \<longrightarrow>
      run_subprocess env argv w
        = (Inl (BuildError argv rc []), \<lparr>files = fs', invoked = invoked w @ [argv]\<rparr>)) \<and>
   (invoked (snd (build_target env options schm json target w)) \<noteq> invoked w \<longrightarrow>
      (\<exists>fs1. build_target env options schm json target w
         = run_subprocess env (flatc_argv options schm json target) (w\<lparr>files := fs1\<rparr>))) \<and>
   (build_target env options schm json target w = (Inl (BuildError a c m), w') \<longrightarrow>
      a = flatc_argv options schm json target \<and> invoked w' = invoked w @ [a] \<and> c \<noteq> 0) \<and>
   (conversion_targets env options (files w0) = before @ (schm, json, target) # after \<and>
    build_targets env options before w0 = (Inr (), w) \<and>
    build_target env options schm json target w = (Inl e, w')
      \<longrightarrow> generate_flatbuffers_binaries env options w0 = (Inl e, w'))"
proof (intro conjI impI)
  assume "popen env (files w) argv = LaunchFailure msg"
  then show "run_subprocess env argv w
        = (Inl (BuildError argv 1 msg), w\<lparr>invoked := invoked w @ [argv]\<rparr>)"
    by (simp add: run_subprocess_def)
next
  assume "popen env (files w) argv = Exited rc fs' \<and> rc \<noteq> 0"
  then show "run_subprocess env argv w
        = (Inl (BuildError argv rc []), \<lparr>files = fs', invoked = invoked w @ [argv]\<rparr>)"
    by (simp add: run_subprocess_def)
next
  assume "invoked (snd (build_target env options schm json target w)) \<noteq> invoked w"
  then show "\<exists>fs1. build_target env options schm json target w
         = run_subprocess env (flatc_argv options schm json target) (w\<lparr>files := fs1\<rparr>)"
    by (rule build_target_started)
next
  assume b: "build_target env options schm json target w = (Inl (BuildError a c m), w')"
  from build_target_BuildError[OF b]
  show "a = flatc_argv options schm json target" "invoked w' = invoked w @ [a]" "c \<noteq> 0"
    by simp_all
next
  assume "conversion_targets env options (files w0) = before @ (schm, json, target) # after \<and>
    build_targets env options before w0 = (Inr (), w) \<and>
    build_target env options schm json target w = (Inl e, w')"
  then show "generate_flatbuffers_binaries env options w0 = (Inl e, w')"
    by (simp add: generate_flat build_targets_append)
qed

lemma no_schema_first_unit:
  "fst (build_target demo_env demo_options ''sound_definition.bfbs'' ''proj/sounds/a.json''
         ''out/sounds/a.amsound'' \<lparr>files = no_schema_files, invoked = []\<rparr>)
     = Inl (BuildError [''flatc'', ''-o'', ''out/sounds'', ''-I'', ''schemas'', ''-b'',
                        ''sound_definition.bfbs'', ''proj/sounds/a.json''] 2 [])"
  "invoked (snd (build_target demo_env demo_options ''sound_definition.bfbs''
         ''proj/sounds/a.json'' ''out/sounds/a.amsound''
         \<lparr>files = no_schema_files, invoked = []\<rparr>))
     = [[''flatc'', ''-o'', ''out/sounds'', ''-I'', ''schemas'', ''-b'',
         ''sound_definition.bfbs'', ''proj/sounds/a.json'']]"
  by (simp_all add: build_target_def Let_def dirname_def path_exists_def no_schema_files_def
      demo_env_def demo_makedirs_def demo_flatc_def demo_options_def needs_rebuild_def
      isfile_def convert_json_to_flatbuffers_binary_def run_subprocess_def)

theorem compiler_failure_aborts_build_witness:
  "run_subprocess no_flatc_env [''flatc'', ''x.json''] \<lparr>files = demo_files, invoked = []\<rparr>
     = (Inl (BuildError [''flatc'', ''x.json''] 1 ''No such file or directory''),
        \<lparr>files = demo_files, invoked = [[''flatc'', ''x.json'']]\<rparr>) \<and>
   run_subprocess demo_env [''flatc'', ''-o'', ''out/sounds'', ''-I'', ''schemas'', ''-b'',
       ''sound_definition.bfbs'', ''proj/sounds/a.json'']
       \<lparr>files = no_schema_files, invoked = []\<rparr>
     = (Inl (BuildError [''flatc'', ''-o'', ''out/sounds'', ''-I'', ''schemas'', ''-b'',
                         ''sound_definition.bfbs'', ''proj/sounds/a.json''] 2 []),
        \<lparr>files = no_schema_files,
         invoked = [[''flatc'', ''-o'', ''out/sounds'', ''-I'', ''schemas'', ''-b'',
                     ''sound_definition.bfbs'', ''proj/sounds/a.json'']]\<rparr>) \<and>
   conversion_targets demo_env demo_options no_schema_files
     = [] @ (''sound_definition.bfbs'', ''proj/sounds/a.json'', ''out/sounds/a.amsound'') #
         [(''sound_definition.bfbs'', ''proj/sounds/b.json'', ''out/sounds/b.amsound''),
          (''schemas/event_definition.bfbs'', ''proj/events/e.json'', ''out/events/e.amevent'')]
   \<and>
   fst (generate_flatbuffers_binaries demo_env demo_options
          \<lparr>files = no_schema_files, invoked = []\<rparr>)
     = Inl (BuildError [''flatc'', ''-o'', ''out/sounds'', ''-I'', ''schemas'', ''-b'',
                        ''sound_definition.bfbs'', ''proj/sounds/a.json''] 2 []) \<and>
   invoked (snd (generate_flatbuffers_binaries demo_env demo_options
          \<lparr>files = no_schema_files, invoked = []\<rparr>))
     = [[''flatc'', ''-o'', ''out/sounds'', ''-I'', ''schemas'', ''-b'',
         ''sound_definition.bfbs'', ''proj/sounds/a.json'']]"
proof -
  let ?A = "[''flatc'', ''-o'', ''out/sounds'', ''-I'', ''schemas'', ''-b'',
             ''sound_definition.bfbs'', ''proj/sounds/a.json'']"
  let ?W0 = "\<lparr>files = no_schema_files, invoked = []\<rparr>"
  let ?W' = "snd (build_target demo_env demo_options ''sound_definition.bfbs''
                   ''proj/sounds/a.json'' ''out/sounds/a.amsound'' ?W0)"
  have ct: "conversion_targets demo_env demo_options (files ?W0)
     = [] @ (''sound_definition.bfbs'', ''proj/sounds/a.json'', ''out/sounds/a.amsound'') #
         [(''sound_definition.bfbs'', ''proj/sounds/b.json'', ''out/sounds/b.amsound''),
          (''schemas/event_definition.bfbs'', ''proj/events/e.json'', ''out/events/e.amevent'')]"
    by (simp add: demo_conversion_targets no_schema_files_def isfile_def string_eval)
  have bt: "build_target demo_env demo_options ''sound_definition.bfbs''
              ''proj/sounds/a.json'' ''out/sounds/a.amsound'' ?W0
            = (Inl (BuildError ?A 2 []), ?W')"
    using no_schema_first_unit(1) by (simp add: prod_eq_iff)
  have l: "popen no_flatc_env (files \<lparr>files = demo_files, invoked = []\<rparr>) [''flatc'', ''x.json'']
             = LaunchFailure ''No such file or directory''"
    by (simp add: no_flatc_env_def)
  have x: "popen demo_env (files ?W0) ?A = Exited 2 no_schema_files \<and> (2::int) \<noteq> 0"
    by (simp add: demo_env_def demo_flatc_def no_schema_files_def)
  have g: "generate_flatbuffers_binaries demo_env demo_options ?W0 = (Inl (BuildError ?A 2 []), ?W')"
    using compiler_failure_aborts_build
            [where env = demo_env and options = demo_options and ?w0.0 = ?W0 and w = ?W0
               and before = "[]" and schm = "''sound_definition.bfbs''"
               and json = "''proj/sounds/a.json''" and target = "''out/sounds/a.amsound''"
               and e = "BuildError ?A 2 []" and w' = ?W'
               and after = "[(''sound_definition.bfbs'', ''proj/sounds/b.json'',
                              ''out/sounds/b.amsound''),
                             (''schemas/event_definition.bfbs'', ''proj/events/e.json'',
                              ''out/events/e.amevent'')]"]
          ct bt
    by simp
  show ?thesis
    using compiler_failure_aborts_build
            [where env = no_flatc_env and w = "\<lparr>files = demo_files, invoked = []\<rparr>"
               and argv = "[''flatc'', ''x.json'']" and msg = "''No such file or directory''"]
          compiler_failure_aborts_build
            [where env = demo_env and w = ?W0 and argv = ?A and rc = 2
               and fs' = no_schema_files]
          l x g ct no_schema_first_unit(2)
    by simp
qed

section \<open>Building twice\<close>
















lemma conversion_targets_mapped:
  "\<forall>u \<in> set (conversion_targets env options fs).
     snd (snd u) = processed_json_path (fst (snd u)) (project_path options) (build_path options)"
  by (auto simp: conversion_targets_def)





lemmas build_eval =
  build_target_def Let_def dirname_def path_exists_def needs_rebuild_def isfile_def
  getmtime_def convert_json_to_flatbuffers_binary_def run_subprocess_def
  demo_makedirs_def demo_options_def path_eval
  demo_artifact_name_def demo_schema_extension_def strip_extension_def basename_def












text \<open>
  The agreement of the targets with the compiler is a condition on the options as much
  as on the compiler. With the project root \<open>.\<close> the target computed for
  \<open>./sounds/a.json\<close> is \<open>out/sounds/aoutamsound\<close>, which is not the artifact
  \<open>a.amsound\<close> that the compiler writes into \<open>out/sounds\<close>: the first run returns
  without error, and the second run finds no target and compiles the unit again.
\<close>

lemma dot_conversion_targets:
  "conversion_targets dot_env dot_options fs =
     [(find_in_paths fs ''sound_definition.bfbs'' [''schemas''],
       ''./sounds/a.json'', ''out/sounds/aoutamsound'')]"
  by (simp add: conversion_targets_def get_conversion_data_def dot_env_def
      dot_options_def path_eval del: find_in_paths.simps)

lemma dot_root_targets_disagree:
  "\<not> targets_agree demo_artifact_name (conversion_targets dot_env dot_options dot_files)"
  by (simp add: dot_conversion_targets targets_agree_def dirname_def demo_artifact_name_def
      demo_schema_extension_def strip_extension_def basename_def string_eval)

lemma dot_root_first_run:
  "generate_flatbuffers_binaries dot_env dot_options \<lparr>files = dot_files, invoked = []\<rparr>
     = (Inr (),
        \<lparr>files = dot_files
           (''out/sounds'' \<mapsto> Dir 0, ''out/sounds/a.amsound'' \<mapsto> File 5),
         invoked =
           [[''flatc'', ''-o'', ''out/sounds'', ''-I'', ''schemas'', ''-b'',
             ''schemas/sound_definition.bfbs'', ''./sounds/a.json'']]\<rparr>)"
  apply (subst generate_flat)
  apply (subst dot_conversion_targets)
  apply (simp add: dot_env_def dot_files_def dot_options_def demo_flatc_def build_eval)
  done

lemma dot_root_second_run:
  "generate_flatbuffers_binaries dot_env dot_options
     \<lparr>files = dot_files
           (''out/sounds'' \<mapsto> Dir 0, ''out/sounds/a.amsound'' \<mapsto> File 5),
      invoked = log\<rparr>
     = (Inr (),
        \<lparr>files = dot_files
           (''out/sounds'' \<mapsto> Dir 0, ''out/sounds/a.amsound'' \<mapsto> File 5),
         invoked = log @
           [[''flatc'', ''-o'', ''out/sounds'', ''-I'', ''schemas'', ''-b'',
             ''schemas/sound_definition.bfbs'', ''./sounds/a.json'']]\<rparr>)"
  apply (subst generate_flat)
  apply (subst dot_conversion_targets)
  apply (simp add: dot_env_def dot_files_def dot_options_def demo_flatc_def build_eval)
  done

section \<open>Staleness in the build loop\<close>

lemma dangling_conversion_targets:
  "conversion_targets dangling_env demo_options fs =
     [(find_in_paths fs ''sound_definition.bfbs'' [''schemas''],
       ''proj/sounds/gone.json'', ''out/sounds/gone.amsound'')]"
  by (simp add: conversion_targets_def get_conversion_data_def dangling_env_def
      demo_options_def path_eval del: find_in_paths.simps)

lemma dangling_run:
  "generate_flatbuffers_binaries dangling_env demo_options \<lparr>files = dangling_files, invoked = []\<rparr>
     = (Inl (OSError ''proj/sounds/gone.json''), \<lparr>files = dangling_files, invoked = []\<rparr>)"
  apply (subst generate_flat)
  apply (subst dangling_conversion_targets)
  apply (simp add: dangling_env_def dangling_files_def build_eval)
  done

text \<open>
  C4, as the specification states it, fails for a unit whose source does not exist
  while its target does: the check of the schema against the target holds, since the
  schema is newer than the target, and yet the unit is not rebuilt. The check of the
  source raises the error of the lookup of its modification time first, and the run
  ends with it, no compiler started.
\<close>

theorem rebuild_iff_stale_counterexample:
  "conversion_targets dangling_env demo_options dangling_files =
     [(''schemas/sound_definition.bfbs'', ''proj/sounds/gone.json'',
       ''out/sounds/gone.amsound'')] \<and>
   path_exists dangling_files (dirname ''out/sounds/gone.amsound'') \<and>
   needs_rebuild dangling_files ''schemas/sound_definition.bfbs'' ''out/sounds/gone.amsound''
     = Inr True \<and>
   needs_rebuild dangling_files ''proj/sounds/gone.json'' ''out/sounds/gone.amsound''
     = Inl (OSError ''proj/sounds/gone.json'') \<and>
   fst (build_file dangling_env demo_options ''schemas/sound_definition.bfbs''
          ''proj/sounds/gone.json'' \<lparr>files = dangling_files, invoked = []\<rparr>)
     = Inl (OSError ''proj/sounds/gone.json'') \<and>
   invoked (snd (build_file dangling_env demo_options ''schemas/sound_definition.bfbs''
                   ''proj/sounds/gone.json'' \<lparr>files = dangling_files, invoked = []\<rparr>)) = [] \<and>
   fst (generate_flatbuffers_binaries dangling_env demo_options
          \<lparr>files = dangling_files, invoked = []\<rparr>) = Inl (OSError ''proj/sounds/gone.json'') \<and>
   invoked (snd (generate_flatbuffers_binaries dangling_env demo_options
                   \<lparr>files = dangling_files, invoked = []\<rparr>)) = []"
proof -
  have u: "conversion_targets dangling_env demo_options dangling_files =
     [(''schemas/sound_definition.bfbs'', ''proj/sounds/gone.json'',
       ''out/sounds/gone.amsound'')]"
    by (simp add: dangling_conversion_targets dangling_files_def isfile_def string_eval)
  have b: "build_file dangling_env demo_options ''schemas/sound_definition.bfbs''
          ''proj/sounds/gone.json'' \<lparr>files = dangling_files, invoked = []\<rparr>
     = (Inl (OSError ''proj/sounds/gone.json''), \<lparr>files = dangling_files, invoked = []\<rparr>)"
    by (simp add: build_file_def dangling_env_def dangling_files_def build_eval)
  have n: "path_exists dangling_files (dirname ''out/sounds/gone.amsound'')"
    "needs_rebuild dangling_files ''schemas/sound_definition.bfbs'' ''out/sounds/gone.amsound''
       = Inr True"
    "needs_rebuild dangling_files ''proj/sounds/gone.json'' ''out/sounds/gone.amsound''
       = Inl (OSError ''proj/sounds/gone.json'')"
    by (simp_all add: dangling_files_def dirname_def path_exists_def needs_rebuild_def
        isfile_def getmtime_def)
  show ?thesis
    by (simp add: u b n dangling_run)
qed

text \<open>
  C4, amended: \<open>needs_rebuild\<close> returns \<open>True\<close> exactly when the target is not a regular
  file or the source's modification time is strictly greater than the target's; with
  equal times it returns \<open>False\<close>. Once the directory of the target is there (it
  existed, or \<open>os.makedirs\<close> has returned), the loop body runs the compiler on a unit
  whose source exists exactly when this holds for the source or for the schema against
  the target, and otherwise starts nothing; on a unit whose source does not exist it
  runs the compiler exactly when the target is not a regular file, and otherwise ends
  with the error of the lookup of the source's modification time, whatever the check of
  the schema gives. Running the compiler is the call of \<open>run_subprocess\<close> on the unit's
  command line, whose result is the result of the loop body.
\<close>

theorem rebuild_iff_stale:
  "(needs_rebuild fs source target = Inr True \<longleftrightarrow>
      (\<not> isfile fs target \<or>
       (\<exists>ms mt. getmtime fs source = Inr ms \<and> getmtime fs target = Inr mt \<and> ms > mt)))
   \<and> (isfile fs target \<and> path_exists fs source \<and> getmtime fs source = getmtime fs target
        \<longrightarrow> needs_rebuild fs source target = Inr False)
   \<and> ((if \<not> path_exists (files w)
              (dirname (processed_json_path json (project_path options) (build_path options)))
        then makedirs env (files w)
              (dirname (processed_json_path json (project_path options) (build_path options)))
        else (None, files w)) = (None, fs1) \<longrightarrow>
       (path_exists fs1 json \<longrightarrow>
          (if needs_rebuild fs1 json
                (processed_json_path json (project_path options) (build_path options)) = Inr True
            \<or> needs_rebuild fs1 schm
                (processed_json_path json (project_path options) (build_path options)) = Inr True
           then build_file env options schm json w =
                  run_subprocess env
                    (flatc_argv options schm json
                       (processed_json_path json (project_path options) (build_path options)))
                    (w\<lparr>files := fs1\<rparr>)
           else snd (build_file env options schm json w) = w\<lparr>files := fs1\<rparr>)) \<and>
       (\<not> path_exists fs1 json \<longrightarrow>
          (if isfile fs1
                (processed_json_path json (project_path options) (build_path options))
           then build_file env options schm json w =
                  (Inl (OSError json), w\<lparr>files := fs1\<rparr>)
           else build_file env options schm json w =
                  run_subprocess env
                    (flatc_argv options schm json
                       (processed_json_path json (project_path options) (build_path options)))
                    (w\<lparr>files := fs1\<rparr>))))"
proof (intro conjI impI)
  show "needs_rebuild fs source target = Inr True \<longleftrightarrow>
      (\<not> isfile fs target \<or>
       (\<exists>ms mt. getmtime fs source = Inr ms \<and> getmtime fs target = Inr mt \<and> ms > mt))"
    by (auto simp: needs_rebuild_def isfile_def getmtime_def split: option.splits node.splits)
next
  assume "isfile fs target \<and> path_exists fs source \<and> getmtime fs source = getmtime fs target"
  then show "needs_rebuild fs source target = Inr False"
    by (auto simp: needs_rebuild_def isfile_def getmtime_def path_exists_def
        split: option.splits node.splits)
next
  define T where "T = processed_json_path json (project_path options) (build_path options)"
  assume d: "(if \<not> path_exists (files w)
              (dirname (processed_json_path json (project_path options) (build_path options)))
        then makedirs env (files w)
              (dirname (processed_json_path json (project_path options) (build_path options)))
        else (None, files w)) = (None, fs1)"
    and j: "path_exists fs1 json"
  from d have d': "(if \<not> path_exists (files w) (dirname T)
        then makedirs env (files w) (dirname T) else (None, files w)) = (None, fs1)"
    unfolding T_def .
  from needs_rebuild_total[OF j]
  obtain b where b: "needs_rebuild fs1 json T = Inr b" by blast
  have "if needs_rebuild fs1 json T = Inr True \<or> needs_rebuild fs1 schm T = Inr True
        then build_file env options schm json w =
               run_subprocess env (flatc_argv options schm json T) (w\<lparr>files := fs1\<rparr>)
        else snd (build_file env options schm json w) = w\<lparr>files := fs1\<rparr>"
    using d' b
    by (cases b; cases "needs_rebuild fs1 schm T")
       (auto simp: build_file_def build_target_def Let_def T_def[symmetric] flatc_argv_def
          convert_json_to_flatbuffers_binary_def split: bool.splits)
  then show "if needs_rebuild fs1 json
                (processed_json_path json (project_path options) (build_path options)) = Inr True
            \<or> needs_rebuild fs1 schm
                (processed_json_path json (project_path options) (build_path options)) = Inr True
           then build_file env options schm json w =
                  run_subprocess env
                    (flatc_argv options schm json
                       (processed_json_path json (project_path options) (build_path options)))
                    (w\<lparr>files := fs1\<rparr>)
           else snd (build_file env options schm json w) = w\<lparr>files := fs1\<rparr>"
    unfolding T_def .
next
  define T where "T = processed_json_path json (project_path options) (build_path options)"
  assume d: "(if \<not> path_exists (files w)
              (dirname (processed_json_path json (project_path options) (build_path options)))
        then makedirs env (files w)
              (dirname (processed_json_path json (project_path options) (build_path options)))
        else (None, files w)) = (None, fs1)"
    and j: "\<not> path_exists fs1 json"
  from d have d': "(if \<not> path_exists (files w) (dirname T)
        then makedirs env (files w) (dirname T) else (None, files w)) = (None, fs1)"
    unfolding T_def .
  have n: "needs_rebuild fs1 json T = (if isfile fs1 T then Inl (OSError json) else Inr True)"
    using j by (auto simp: needs_rebuild_def isfile_def path_exists_def getmtime_def
        split: option.splits node.splits)
  have "if isfile fs1 T
        then build_file env options schm json w = (Inl (OSError json), w\<lparr>files := fs1\<rparr>)
        else build_file env options schm json w =
               run_subprocess env (flatc_argv options schm json T) (w\<lparr>files := fs1\<rparr>)"
    using d' n
    by (auto simp: build_file_def build_target_def Let_def T_def[symmetric] flatc_argv_def
          convert_json_to_flatbuffers_binary_def)
  then show "if isfile fs1
                (processed_json_path json (project_path options) (build_path options))
           then build_file env options schm json w =
                  (Inl (OSError json), w\<lparr>files := fs1\<rparr>)
           else build_file env options schm json w =
                  run_subprocess env
                    (flatc_argv options schm json
                       (processed_json_path json (project_path options) (build_path options)))
                    (w\<lparr>files := fs1\<rparr>)"
    unfolding T_def .
qed

theorem rebuild_iff_stale_witness:
  "isfile tie_files ''out/sounds/a.amsound'' \<and>
   path_exists tie_files ''proj/sounds/a.json'' \<and>
   getmtime tie_files ''proj/sounds/a.json'' = getmtime tie_files ''out/sounds/a.amsound'' \<and>
   needs_rebuild tie_files ''proj/sounds/a.json'' ''out/sounds/a.amsound'' = Inr False \<and>
   needs_rebuild tie_files ''schemas/sound_definition.bfbs'' ''out/sounds/a.amsound''
     = Inr True \<and>
   needs_rebuild tie_files ''proj/sounds/a.json'' ''out/sounds/b.amsound'' = Inr True \<and>
   processed_json_path ''proj/sounds/a.json'' (project_path demo_options)
     (build_path demo_options) = ''out/sounds/a.amsound'' \<and>
   path_exists tie_files (dirname ''out/sounds/a.amsound'') \<and>
   build_file demo_env demo_options ''schemas/sound_definition.bfbs''
       ''proj/sounds/a.json'' \<lparr>files = tie_files, invoked = []\<rparr>
     = run_subprocess demo_env
         [''flatc'', ''-o'', ''out/sounds'', ''-I'', ''schemas'', ''-b'',
          ''schemas/sound_definition.bfbs'', ''proj/sounds/a.json'']
         \<lparr>files = tie_files, invoked = []\<rparr> \<and>
   invoked (snd (build_file demo_env demo_options ''schemas/sound_definition.bfbs''
                   ''proj/sounds/a.json'' \<lparr>files = tie_files, invoked = []\<rparr>))
     = [[''flatc'', ''-o'', ''out/sounds'', ''-I'', ''schemas'', ''-b'',
         ''schemas/sound_definition.bfbs'', ''proj/sounds/a.json'']] \<and>
   path_exists built_files ''proj/sounds/a.json'' \<and>
   needs_rebuild built_files ''proj/sounds/a.json'' ''out/sounds/a.amsound'' = Inr False \<and>
   needs_rebuild built_files ''schemas/sound_definition.bfbs'' ''out/sounds/a.amsound''
     = Inr False \<and>
   invoked (snd (build_file demo_env demo_options ''schemas/sound_definition.bfbs''
                   ''proj/sounds/a.json'' \<lparr>files = built_files, invoked = []\<rparr>)) = [] \<and>
   \<not> path_exists dangling_files ''proj/sounds/gone.json'' \<and>
   isfile dangling_files ''out/sounds/gone.amsound'' \<and>
   fst (build_file demo_env demo_options ''schemas/sound_definition.bfbs''
          ''proj/sounds/gone.json'' \<lparr>files = dangling_files, invoked = []\<rparr>)
     = Inl (OSError ''proj/sounds/gone.json'') \<and>
   \<not> path_exists tie_files ''proj/sounds/gone.json'' \<and>
   \<not> isfile tie_files ''out/sounds/gone.amsound'' \<and>
   invoked (snd (build_file demo_env demo_options ''schemas/sound_definition.bfbs''
                   ''proj/sounds/gone.json'' \<lparr>files = tie_files, invoked = []\<rparr>))
     = [[''flatc'', ''-o'', ''out/sounds'', ''-I'', ''schemas'', ''-b'',
         ''schemas/sound_definition.bfbs'', ''proj/sounds/gone.json'']]"
proof -
  let ?S = "''schemas/sound_definition.bfbs''"
  have p: "processed_json_path ''proj/sounds/a.json'' (project_path demo_options)
             (build_path demo_options) = ''out/sounds/a.amsound''"
    "processed_json_path ''proj/sounds/gone.json'' (project_path demo_options)
             (build_path demo_options) = ''out/sounds/gone.amsound''"
    by (simp_all add: demo_options_def path_eval)
  have dn: "dirname ''out/sounds/a.amsound'' = ''out/sounds''"
    "dirname ''out/sounds/gone.amsound'' = ''out/sounds''"
    by (simp_all add: dirname_def)
  have e: "path_exists tie_files ''out/sounds''"
    "path_exists dangling_files ''out/sounds''"
    "path_exists built_files ''out/sounds''"
    "path_exists tie_files ''proj/sounds/a.json''"
    "path_exists built_files ''proj/sounds/a.json''"
    "\<not> path_exists dangling_files ''proj/sounds/gone.json''"
    "\<not> path_exists tie_files ''proj/sounds/gone.json''"
    "isfile tie_files ''out/sounds/a.amsound''"
    "isfile dangling_files ''out/sounds/gone.amsound''"
    "\<not> isfile tie_files ''out/sounds/gone.amsound''"
    "getmtime tie_files ''proj/sounds/a.json'' = getmtime tie_files ''out/sounds/a.amsound''"
    by (simp_all add: tie_files_def dangling_files_def built_files_def path_exists_def
        isfile_def getmtime_def)
  have m: "needs_rebuild built_files ''proj/sounds/a.json'' ''out/sounds/a.amsound''
             = Inr False"
    "needs_rebuild built_files ?S ''out/sounds/a.amsound'' = Inr False"
    by (simp_all add: built_files_def needs_rebuild_def isfile_def getmtime_def)
  note t1 = rebuild_iff_stale
          [where fs = tie_files and source = "''proj/sounds/a.json''"
             and target = "''out/sounds/a.amsound''"
             and w = "\<lparr>files = tie_files, invoked = []\<rparr>" and ?fs1.0 = tie_files
             and json = "''proj/sounds/a.json''" and options = demo_options
             and env = demo_env and schm = ?S]
  note t2 = rebuild_iff_stale
          [where fs = tie_files and source = ?S
             and target = "''out/sounds/a.amsound''"
             and w = "\<lparr>files = dangling_files, invoked = []\<rparr>" and ?fs1.0 = dangling_files
             and json = "''proj/sounds/gone.json''" and options = demo_options
             and env = demo_env and schm = ?S]
  note t3 = rebuild_iff_stale
          [where fs = tie_files and source = "''proj/sounds/a.json''"
             and target = "''out/sounds/b.amsound''"
             and w = "\<lparr>files = built_files, invoked = []\<rparr>" and ?fs1.0 = built_files
             and json = "''proj/sounds/a.json''" and options = demo_options
             and env = demo_env and schm = ?S]
  note t4 = rebuild_iff_stale
          [where fs = tie_files and source = "''proj/sounds/a.json''"
             and target = "''out/sounds/b.amsound''"
             and w = "\<lparr>files = tie_files, invoked = []\<rparr>" and ?fs1.0 = tie_files
             and json = "''proj/sounds/gone.json''" and options = demo_options
             and env = demo_env and schm = ?S]
  have n1: "needs_rebuild tie_files ''proj/sounds/a.json'' ''out/sounds/a.amsound'' = Inr False"
    using t1 e by blast
  have n2: "needs_rebuild tie_files ?S ''out/sounds/a.amsound'' = Inr True"
    using t2 by (simp add: tie_files_def isfile_def getmtime_def)
  have n3: "needs_rebuild tie_files ''proj/sounds/a.json'' ''out/sounds/b.amsound'' = Inr True"
    using t3 by (simp add: tie_files_def isfile_def)
  have b1: "build_file demo_env demo_options ?S ''proj/sounds/a.json''
              \<lparr>files = tie_files, invoked = []\<rparr>
     = run_subprocess demo_env
         [''flatc'', ''-o'', ''out/sounds'', ''-I'', ''schemas'', ''-b'', ?S,
          ''proj/sounds/a.json'']
         \<lparr>files = tie_files, invoked = []\<rparr>"
    using t1[unfolded p dn] e n2 by (simp add: flatc_argv_def demo_options_def dn)
  have b2: "build_file demo_env demo_options ?S ''proj/sounds/gone.json''
              \<lparr>files = dangling_files, invoked = []\<rparr>
     = (Inl (OSError ''proj/sounds/gone.json''), \<lparr>files = dangling_files, invoked = []\<rparr>)"
    using t2[unfolded p dn] e by simp
  have b3: "snd (build_file demo_env demo_options ?S ''proj/sounds/a.json''
              \<lparr>files = built_files, invoked = []\<rparr>) = \<lparr>files = built_files, invoked = []\<rparr>"
    using t3[unfolded p dn] e m by simp
  have b4: "build_file demo_env demo_options ?S ''proj/sounds/gone.json''
              \<lparr>files = tie_files, invoked = []\<rparr>
     = run_subprocess demo_env
         [''flatc'', ''-o'', ''out/sounds'', ''-I'', ''schemas'', ''-b'', ?S,
          ''proj/sounds/gone.json'']
         \<lparr>files = tie_files, invoked = []\<rparr>"
    using t4[unfolded p dn] e by (simp add: flatc_argv_def demo_options_def dn)
  show ?thesis
    by (simp add: n1 n2 n3 p e dn m b1 b2 b3 b4 run_subprocess_invoked)
qed

text \<open>
  C10, as the specification states it, fails in its last clause: the enumeration of a
  directory returns the names that match, a symbolic link to a file that is gone among
  them, and for \<open>os.path.getmtime\<close> such a source does not exist. The one source
  enumerated here is of this kind, its target is a regular file, and the build ends
  with the operating-system error of the source.
\<close>

theorem enumerated_source_counterexample:
  "map (\<lambda>u. fst (snd u)) (conversion_targets dangling_env demo_options dangling_files)
     = [''proj/sounds/gone.json''] \<and>
   glob dangling_env dangling_files (path_join (project_path demo_options)
       [SOUNDS_DIR_NAME, ''**/*.json'']) True = [''proj/sounds/gone.json''] \<and>
   \<not> path_exists dangling_files ''proj/sounds/gone.json'' \<and>
   isfile dangling_files ''out/sounds/gone.amsound'' \<and>
   needs_rebuild dangling_files ''proj/sounds/gone.json'' ''out/sounds/gone.amsound''
     = Inl (OSError ''proj/sounds/gone.json'') \<and>
   generate_flatbuffers_binaries dangling_env demo_options
       \<lparr>files = dangling_files, invoked = []\<rparr>
     = (Inl (OSError ''proj/sounds/gone.json''), \<lparr>files = dangling_files, invoked = []\<rparr>)"
proof -
  have n: "\<not> path_exists dangling_files ''proj/sounds/gone.json''"
    "isfile dangling_files ''out/sounds/gone.amsound''"
    "needs_rebuild dangling_files ''proj/sounds/gone.json'' ''out/sounds/gone.amsound''
       = Inl (OSError ''proj/sounds/gone.json'')"
    by (simp_all add: dangling_files_def path_exists_def needs_rebuild_def
        isfile_def getmtime_def)
  have g: "glob dangling_env dangling_files (path_join (project_path demo_options)
       [SOUNDS_DIR_NAME, ''**/*.json'']) True = [''proj/sounds/gone.json'']"
    by (simp add: dangling_env_def demo_options_def path_eval)
  show ?thesis
    by (simp add: dangling_conversion_targets n g dangling_run del: path_join.simps)
qed

text \<open>
  C10, amended: \<open>needs_rebuild\<close> returns a boolean whenever the source exists, and
  whenever the target is not a regular file; when the target is a regular file and the
  source does not exist, the lookup of the source's modification time raises the
  operating-system error instead. The build does not establish the precondition: when
  it reaches an enumerated unit whose source does not exist and whose target is a
  regular file in an existing directory, every unit before it built without error, it
  ends with that error, in the state it reached the unit in.
\<close>

theorem needs_rebuild_needs_source:
  "(isfile fs target \<and> \<not> path_exists fs source
      \<longrightarrow> needs_rebuild fs source target = Inl (OSError source)) \<and>
   (path_exists fs source \<longrightarrow> (\<exists>b. needs_rebuild fs source target = Inr b)) \<and>
   (\<not> isfile fs target \<longrightarrow> needs_rebuild fs source target = Inr True) \<and>
   (conversion_targets env options (files w) = before @ (schm, json, out) # rest \<and>
    build_targets env options before w = (Inr (), w') \<and>
    path_exists (files w') (dirname out) \<and> isfile (files w') out \<and>
    \<not> path_exists (files w') json
      \<longrightarrow> generate_flatbuffers_binaries env options w = (Inl (OSError json), w'))"
proof (intro conjI impI)
  assume a: "conversion_targets env options (files w) = before @ (schm, json, out) # rest \<and>
    build_targets env options before w = (Inr (), w') \<and>
    path_exists (files w') (dirname out) \<and> isfile (files w') out \<and>
    \<not> path_exists (files w') json"
  then have n: "needs_rebuild (files w') json out = Inl (OSError json)"
    by (auto simp: needs_rebuild_def isfile_def path_exists_def getmtime_def
        split: option.splits node.splits)
  have "build_target env options schm json out w' = (Inl (OSError json), w')"
    using a n by (simp add: build_target_def Let_def)
  with a show "generate_flatbuffers_binaries env options w = (Inl (OSError json), w')"
    by (simp add: generate_flat build_targets_append)
qed (auto simp: needs_rebuild_def isfile_def path_exists_def getmtime_def
      split: option.splits node.splits)

theorem needs_rebuild_needs_source_witness:
  "isfile tie_files ''out/sounds/a.amsound'' \<and>
   \<not> path_exists tie_files ''proj/sounds/gone.json'' \<and>
   needs_rebuild tie_files ''proj/sounds/gone.json'' ''out/sounds/a.amsound''
     = Inl (OSError ''proj/sounds/gone.json'') \<and>
   path_exists tie_files ''proj/sounds/a.json'' \<and>
   needs_rebuild tie_files ''proj/sounds/a.json'' ''out/sounds/a.amsound'' = Inr False \<and>
   \<not> isfile tie_files ''out/sounds/gone.amsound'' \<and>
   needs_rebuild tie_files ''proj/sounds/gone.json'' ''out/sounds/gone.amsound'' = Inr True \<and>
   conversion_targets dangling_env demo_options dangling_files
     = [] @ (''schemas/sound_definition.bfbs'', ''proj/sounds/gone.json'',
             ''out/sounds/gone.amsound'') # [] \<and>
   path_exists dangling_files (dirname ''out/sounds/gone.amsound'') \<and>
   isfile dangling_files ''out/sounds/gone.amsound'' \<and>
   \<not> path_exists dangling_files ''proj/sounds/gone.json'' \<and>
   fst (generate_flatbuffers_binaries dangling_env demo_options
          \<lparr>files = dangling_files, invoked = [[''earlier'']]\<rparr>)
     = Inl (OSError ''proj/sounds/gone.json'') \<and>
   invoked (snd (generate_flatbuffers_binaries dangling_env demo_options
          \<lparr>files = dangling_files, invoked = [[''earlier'']]\<rparr>)) = [[''earlier'']]"
proof -
  let ?w = "\<lparr>files = dangling_files, invoked = [[''earlier'']]\<rparr>"
  have u: "conversion_targets dangling_env demo_options (files ?w)
     = [] @ (''schemas/sound_definition.bfbs'', ''proj/sounds/gone.json'',
             ''out/sounds/gone.amsound'') # []"
    by (simp add: dangling_conversion_targets dangling_files_def isfile_def string_eval)
  have e: "path_exists (files ?w) (dirname ''out/sounds/gone.amsound'')"
    "isfile (files ?w) ''out/sounds/gone.amsound''"
    "\<not> path_exists (files ?w) ''proj/sounds/gone.json''"
    by (simp_all add: dangling_files_def dirname_def path_exists_def isfile_def)
  have b: "build_targets dangling_env demo_options [] ?w = (Inr (), ?w)"
    by simp
  from needs_rebuild_needs_source
         [where env = dangling_env and options = demo_options and w = ?w and w' = ?w
            and before = "[]" and rest = "[]" and schm = "''schemas/sound_definition.bfbs''"
            and json = "''proj/sounds/gone.json''" and out = "''out/sounds/gone.amsound''"]
       u e b
  have g: "generate_flatbuffers_binaries dangling_env demo_options ?w
             = (Inl (OSError ''proj/sounds/gone.json''), ?w)"
    by blast
  have t: "needs_rebuild tie_files ''proj/sounds/gone.json'' ''out/sounds/a.amsound''
             = Inl (OSError ''proj/sounds/gone.json'')"
    "needs_rebuild tie_files ''proj/sounds/gone.json'' ''out/sounds/gone.amsound'' = Inr True"
    using needs_rebuild_needs_source
            [of tie_files "''out/sounds/a.amsound''" "''proj/sounds/gone.json''"]
          needs_rebuild_needs_source
            [of tie_files "''out/sounds/gone.amsound''" "''proj/sounds/gone.json''"]
    by (simp_all add: tie_files_def isfile_def path_exists_def)
  have t': "isfile tie_files ''out/sounds/a.amsound''"
    "\<not> path_exists tie_files ''proj/sounds/gone.json''"
    "path_exists tie_files ''proj/sounds/a.json''"
    "needs_rebuild tie_files ''proj/sounds/a.json'' ''out/sounds/a.amsound'' = Inr False"
    "\<not> isfile tie_files ''out/sounds/gone.amsound''"
    by (simp_all add: tie_files_def isfile_def path_exists_def getmtime_def needs_rebuild_def)
  show ?thesis
    using u e by (simp add: g t t')
qed

end
